theory Spec2Isabelle
  imports
    Main
    "HOL-Library.Word"
    "HOL-Library.Sublist"
begin

unbundle bit_operations_syntax

section \<open>stagit: a shallow embedding of \<^verbatim>\<open>stagit.c\<close>\<close>

text \<open>
  Bytes are \<^typ>\<open>char\<close> (eight bits), a C buffer is a \<^typ>\<open>string\<close>. A buffer that the C
  code reads as a NUL-terminated string is the list of the bytes stored in it; the end of
  the list stands for the terminating NUL that every C string carries, so a read loop
  stops at an embedded NUL byte or at the end of the list, whichever comes first.
  What a function prints with \<^verbatim>\<open>fputs\<close>, \<^verbatim>\<open>fputc\<close> and \<^verbatim>\<open>fprintf\<close> on its stream is the
  string it returns, in the order of the calls.
\<close>

subsection \<open>The text escaper\<close>

definition NUL :: char where
  "NUL = CHR 0x00"

text \<open>The \<^verbatim>\<open>switch\<close> of \<^verbatim>\<open>xmlencode\<close>: what one byte puts on the stream.\<close>

definition xmlencode_char :: "char \<Rightarrow> string" where
  "xmlencode_char c =
     (if c = CHR ''<'' then ''&lt;''
      else if c = CHR ''>'' then ''&gt;''
      else if c = CHR 0x27 then ''&apos;''
      else if c = CHR ''&'' then ''&amp;''
      else if c = CHR 0x22 then ''&quot;''
      else [c])"

text \<open>
  \<^verbatim>\<open>for (i = 0; *s && i < len; s++, i++)\<close>: the first argument is what is left of the
  buffer at \<^verbatim>\<open>s\<close>, the second the counter \<^verbatim>\<open>i\<close>. The counter never passes \<^verbatim>\<open>len\<close>, so it
  does not wrap.
\<close>

fun xmlencode_loop :: "string \<Rightarrow> nat \<Rightarrow> nat \<Rightarrow> string" where
  "xmlencode_loop [] i len = []"
| "xmlencode_loop (c # s) i len =
     (if c \<noteq> NUL \<and> i < len then xmlencode_char c @ xmlencode_loop s (Suc i) len else [])"

definition xmlencode :: "string \<Rightarrow> nat \<Rightarrow> string" where
  "xmlencode s len = xmlencode_loop s 0 len"

text \<open>
  The inverse the specification speaks of, written from its words: every occurrence of
  one of the five named entities is replaced by the character it names, every other byte
  is kept.
\<close>

function xmlunescape :: "string \<Rightarrow> string" where
  "xmlunescape [] = []"
| "xmlunescape (c # s) =
     (if c = CHR ''&'' \<and> prefix ''lt;'' s then CHR ''<'' # xmlunescape (drop 3 s)
      else if c = CHR ''&'' \<and> prefix ''gt;'' s then CHR ''>'' # xmlunescape (drop 3 s)
      else if c = CHR ''&'' \<and> prefix ''apos;'' s then CHR 0x27 # xmlunescape (drop 5 s)
      else if c = CHR ''&'' \<and> prefix ''amp;'' s then CHR ''&'' # xmlunescape (drop 4 s)
      else if c = CHR ''&'' \<and> prefix ''quot;'' s then CHR 0x22 # xmlunescape (drop 5 s)
      else c # xmlunescape s)"
  by pat_completeness auto
termination
  by (relation "measure length") auto

text \<open>The prefix of the buffer that the escaper reads.\<close>

definition escaped_prefix :: "string \<Rightarrow> nat \<Rightarrow> string" where
  "escaped_prefix s len = take len (takeWhile (\<lambda>c. c \<noteq> NUL) s)"

subsection \<open>C strings and \<^verbatim>\<open>printf\<close> conversions\<close>

text \<open>\<^verbatim>\<open>%s\<close> and \<^verbatim>\<open>fputs\<close> print a string up to its terminator; \<^verbatim>\<open>strlen\<close> counts those bytes.\<close>

definition cstr :: "string \<Rightarrow> string" where
  "cstr s = takeWhile (\<lambda>c. c \<noteq> NUL) s"

definition strlen :: "string \<Rightarrow> nat" where
  "strlen s = length (cstr s)"

text \<open>\<^verbatim>\<open>s[0]\<close> as a truth value.\<close>

definition first_byte_set :: "string \<Rightarrow> bool" where
  "first_byte_set s = (case s of [] \<Rightarrow> False | c # _ \<Rightarrow> c \<noteq> NUL)"

definition digit_char :: "nat \<Rightarrow> char" where
  "digit_char d = char_of (48 + d)"

text \<open>\<^verbatim>\<open>%zu\<close> and \<^verbatim>\<open>%ju\<close>: an unsigned value in decimal.\<close>

function fmt_zu :: "nat \<Rightarrow> string" where
  "fmt_zu n = (if n < 10 then [digit_char n] else fmt_zu (n div 10) @ [digit_char (n mod 10)])"
  by pat_completeness auto
termination
  by (relation "measure id") auto

text \<open>\<^verbatim>\<open>%d\<close>: a signed value in decimal.\<close>

definition fmt_d :: "int \<Rightarrow> string" where
  "fmt_d i = (if i < 0 then CHR ''-'' # fmt_zu (nat (- i)) else fmt_zu (nat i))"

text \<open>
  A \<^verbatim>\<open>size_t\<close> read as an \<^verbatim>\<open>int\<close> (the \<^verbatim>\<open>return n\<close> of \<^verbatim>\<open>writeblobhtml\<close>, and its
  \<^verbatim>\<open>%d\<close> of a \<^verbatim>\<open>size_t\<close>): the low 32 bits, in two's complement.
\<close>

definition int_of_size_t :: "nat \<Rightarrow> int" where
  "int_of_size_t n = sint (word_of_nat n :: 32 word)"

text \<open>\<^verbatim>\<open>PATH_MAX\<close> of \<^verbatim>\<open>limits.h\<close>, and \<^verbatim>\<open>snprintf\<close>, \<^verbatim>\<open>strlcpy\<close>, \<^verbatim>\<open>strlcat\<close> into a buffer of
  \<open>sz\<close> bytes: the result is cut to \<open>sz - 1\<close> bytes.\<close>

definition PATH_MAX :: nat where
  "PATH_MAX = 4096"

definition snprintf :: "nat \<Rightarrow> string \<Rightarrow> string" where
  "snprintf sz s = take (sz - 1) s"

definition strlcat :: "string \<Rightarrow> string \<Rightarrow> nat \<Rightarrow> string" where
  "strlcat dst src sz = take (sz - 1) (cstr dst @ cstr src)"

text \<open>
  \<^verbatim>\<open>strcmp\<close>: the difference of the first two bytes that differ, read as
  \<^verbatim>\<open>unsigned char\<close>; the end of a string is its NUL byte, of value 0.
\<close>

fun strcmp_loop :: "string \<Rightarrow> string \<Rightarrow> int" where
  "strcmp_loop [] [] = 0"
| "strcmp_loop [] (b # bs) = - int (of_char b)"
| "strcmp_loop (a # as) [] = int (of_char a)"
| "strcmp_loop (a # as) (b # bs) =
     (if a = b then strcmp_loop as bs else int (of_char a) - int (of_char b))"

definition strcmp :: "string \<Rightarrow> string \<Rightarrow> int" where
  "strcmp s1 s2 = strcmp_loop (cstr s1) (cstr s2)"

subsection \<open>The version-control collaborator (libgit2) and the C library\<close>

text \<open>
  Objects of libgit2 are records of what the program reads from them. An object
  identifier is 20 bytes; \<^verbatim>\<open>git_oid_tostr\<close> prints it as 40 lower-case hexadecimal
  digits, and prints the empty string for a \<^verbatim>\<open>NULL\<close> identifier.
\<close>

type_synonym git_oid = "160 word"

definition hex_digit :: "nat \<Rightarrow> char" where
  "hex_digit d = ''0123456789abcdef'' ! (d mod 16)"

definition git_oid_fmt :: "git_oid \<Rightarrow> string" where
  "git_oid_fmt oid = map (\<lambda>i. hex_digit (unat (drop_bit (4 * (39 - i)) oid))) [0..<40]"

definition GIT_OID_HEXSZ :: nat where
  "GIT_OID_HEXSZ = 40"

definition git_oid_tostr :: "nat \<Rightarrow> git_oid option \<Rightarrow> string" where
  "git_oid_tostr n oid =
     (case oid of None \<Rightarrow> [] | Some i \<Rightarrow> take (min n (GIT_OID_HEXSZ + 1) - 1) (git_oid_fmt i))"

record git_time =
  time :: int
  offset :: int

record git_signature =
  sig_name :: string
  sig_email :: string
  sig_when :: git_time

text \<open>A tree is known to this program only as the argument of the diff; it stands for
  the tree object of that identifier.\<close>

type_synonym git_tree = git_oid

record git_diff_line =
  old_lineno :: int
  new_lineno :: int
  content :: string
  content_len :: nat

record git_diff_hunk =
  header :: string
  header_len :: nat
  hunk_lines :: "git_diff_line list"

record git_diff_delta =
  flags :: "32 word"
  old_file_path :: string
  new_file_path :: string

record git_patch =
  patch_delta :: git_diff_delta
  patch_hunks :: "git_diff_hunk list"

text \<open>
  A diff answers \<^verbatim>\<open>git_patch_from_diff\<close> for each of its deltas (\<open>None\<close>: the call
  fails), so \<^verbatim>\<open>git_diff_num_deltas\<close> is the length of that list.
\<close>

record git_diff =
  diff_patches :: "git_patch option list"

text \<open>
  The statistics of a diff: the three counts, and what \<^verbatim>\<open>git_diff_stats_to_buf\<close> with
  \<^verbatim>\<open>GIT_DIFF_STATS_FULL | GIT_DIFF_STATS_SHORT\<close> and width 80 leaves in the buffer
  (\<open>None\<close>: the call fails or the buffer pointer is \<^verbatim>\<open>NULL\<close>).
\<close>

record git_diff_stats =
  stats_insertions :: nat
  stats_deletions :: nat
  stats_files_changed :: nat
  stats_to_buf :: "string option"

record git_commit =
  commit_id :: git_oid
  commit_parent_ids :: "git_oid list"
  commit_author :: "git_signature option"
  commit_summary :: "string option"
  commit_message :: "string option"
  commit_tree_id :: git_oid

record git_blob =
  rawcontent :: string
  is_binary :: bool

text \<open>
  A reference is known by its full name, its kind and its direct target.
  \<^verbatim>\<open>git_reference_is_branch\<close> and \<^verbatim>\<open>git_reference_is_tag\<close> test the name's prefix and
  answer 1 or 0; \<^verbatim>\<open>git_reference_shorthand\<close> drops the first of the prefixes
  \<^verbatim>\<open>refs/heads/\<close>, \<^verbatim>\<open>refs/tags/\<close>, \<^verbatim>\<open>refs/remotes/\<close>, \<^verbatim>\<open>refs/\<close> that the name has.
\<close>

datatype git_ref_t = GIT_REF_INVALID | GIT_REF_OID | GIT_REF_SYMBOLIC

record git_reference =
  ref_name :: string
  ref_type :: git_ref_t
  ref_target :: "git_oid option"

definition git_reference_is_branch :: "git_reference \<Rightarrow> int" where
  "git_reference_is_branch r = (if prefix ''refs/heads/'' (ref_name r) then 1 else 0)"

definition git_reference_is_tag :: "git_reference \<Rightarrow> int" where
  "git_reference_is_tag r = (if prefix ''refs/tags/'' (ref_name r) then 1 else 0)"

definition git_reference_shorthand :: "git_reference \<Rightarrow> string" where
  "git_reference_shorthand r =
     (let n = ref_name r in
      if prefix ''refs/heads/'' n then drop 11 n
      else if prefix ''refs/tags/'' n then drop 10 n
      else if prefix ''refs/remotes/'' n then drop 13 n
      else if prefix ''refs/'' n then drop 5 n
      else n)"

definition git_reference_type :: "git_reference \<Rightarrow> git_ref_t" where
  "git_reference_type r = ref_type r"

definition git_reference_target :: "git_reference \<Rightarrow> git_oid option" where
  "git_reference_target r = ref_target r"

text \<open>An object as \<^verbatim>\<open>git_reference_peel\<close> returns it: \<^verbatim>\<open>git_object_id\<close> is all the program
  asks of it.\<close>

record git_object =
  git_object_id :: "git_oid option"

text \<open>A revision walker, as the program configures it before the first
  \<^verbatim>\<open>git_revwalk_next\<close>.\<close>

datatype git_revwalk_start = Push git_oid | Push_head

datatype git_sort_t = GIT_SORT_NONE | GIT_SORT_TOPOLOGICAL | GIT_SORT_TIME | GIT_SORT_REVERSE

record git_revwalk =
  walk_pushed :: "git_revwalk_start list"
  walk_sorting :: git_sort_t
  walk_first_parent :: bool

definition git_revwalk_new :: git_revwalk where
  "git_revwalk_new = \<lparr>walk_pushed = [], walk_sorting = GIT_SORT_NONE, walk_first_parent = False\<rparr>"

definition git_revwalk_push :: "git_revwalk \<Rightarrow> git_oid \<Rightarrow> git_revwalk" where
  "git_revwalk_push w i = w\<lparr>walk_pushed := walk_pushed w @ [Push i]\<rparr>"

definition git_revwalk_push_head :: "git_revwalk \<Rightarrow> git_revwalk" where
  "git_revwalk_push_head w = w\<lparr>walk_pushed := walk_pushed w @ [Push_head]\<rparr>"

definition git_revwalk_sorting :: "git_revwalk \<Rightarrow> git_sort_t \<Rightarrow> git_revwalk" where
  "git_revwalk_sorting w m = w\<lparr>walk_sorting := m\<rparr>"

definition git_revwalk_simplify_first_parent :: "git_revwalk \<Rightarrow> git_revwalk" where
  "git_revwalk_simplify_first_parent w = w\<lparr>walk_first_parent := True\<rparr>"

datatype git_diff_option_t = GIT_DIFF_DISABLE_PATHSPEC_MATCH

text \<open>
  What the program asks of the repository \<^verbatim>\<open>repo\<close> and of the C library. Each field is the
  answer of the call of that name; \<open>None\<close> is a failing call.
  \<^item> \<open>odb_commits\<close>: the commit stored under an identifier;
  \<^item> \<open>odb_has_tree\<close>: whether the tree of that identifier can be loaded;
  \<^item> \<open>diff_tree_to_tree\<close>: \<^verbatim>\<open>git_diff_tree_to_tree\<close> of an old and a new tree under the
    option flags, where \<open>None\<close> for a tree is the \<^verbatim>\<open>NULL\<close> pointer, which libgit2 reads as
    the empty tree;
  \<^item> \<open>diff_get_stats\<close>: \<^verbatim>\<open>git_diff_get_stats\<close>;
  \<^item> \<open>reference_list\<close>: the references that \<^verbatim>\<open>git_reference_next\<close> returns, in its
    order (\<open>None\<close>: \<^verbatim>\<open>git_reference_iterator_new\<close> fails);
  \<^item> \<open>reference_resolve\<close>, \<open>reference_peel\<close>: \<^verbatim>\<open>git_reference_resolve\<close> and
    \<^verbatim>\<open>git_reference_peel\<close> to \<^verbatim>\<open>GIT_OBJ_ANY\<close>;
  \<^item> \<open>revwalk_next\<close>: the identifiers that successive calls of \<^verbatim>\<open>git_revwalk_next\<close>
    return for a walker so configured, up to the first call that fails;
  \<^item> \<open>strftime_gmtime\<close>: \<^verbatim>\<open>strftime\<close> into a buffer of the given size, with the given
    format, of \<^verbatim>\<open>gmtime\<close> of the given time.
\<close>

record collaborators =
  odb_commits :: "git_oid \<Rightarrow> git_commit option"
  odb_has_tree :: "git_oid \<Rightarrow> bool"
  diff_tree_to_tree ::
    "git_tree option \<Rightarrow> git_tree option \<Rightarrow> git_diff_option_t list \<Rightarrow> git_diff option"
  diff_get_stats :: "git_diff \<Rightarrow> git_diff_stats option"
  reference_list :: "git_reference list option"
  reference_resolve :: "git_reference \<Rightarrow> git_reference option"
  reference_peel :: "git_reference \<Rightarrow> git_object option"
  revwalk_next :: "git_revwalk \<Rightarrow> git_oid list"
  strftime_gmtime :: "nat \<Rightarrow> string \<Rightarrow> int \<Rightarrow> string"

text \<open>The commit looked up under an identifier carries that identifier.\<close>

definition git_commit_lookup :: "collaborators \<Rightarrow> git_oid \<Rightarrow> git_commit option" where
  "git_commit_lookup e i =
     (case odb_commits e i of None \<Rightarrow> None | Some c \<Rightarrow> Some (c\<lparr>commit_id := i\<rparr>))"

definition git_commit_parent_id :: "git_commit \<Rightarrow> nat \<Rightarrow> git_oid option" where
  "git_commit_parent_id c n =
     (if n < length (commit_parent_ids c) then Some (commit_parent_ids c ! n) else None)"

definition git_commit_parent :: "collaborators \<Rightarrow> git_commit \<Rightarrow> nat \<Rightarrow> git_commit option" where
  "git_commit_parent e c n =
     (case git_commit_parent_id c n of None \<Rightarrow> None | Some p \<Rightarrow> git_commit_lookup e p)"

definition git_commit_tree :: "collaborators \<Rightarrow> git_commit \<Rightarrow> git_tree option" where
  "git_commit_tree e c = (if odb_has_tree e (commit_tree_id c) then Some (commit_tree_id c) else None)"

subsection \<open>Commit snapshots\<close>

text \<open>
  \<^verbatim>\<open>struct commitinfo\<close>. A pointer that the program tests against \<^verbatim>\<open>NULL\<close> is an option;
  \<^verbatim>\<open>commit\<close>, \<^verbatim>\<open>commit_tree\<close> and \<^verbatim>\<open>diff\<close> are set in every snapshot that
  \<^verbatim>\<open>commitinfo_getbyoid\<close> returns. Memory allocation is taken to succeed.
\<close>

record commitinfo =
  ci_id :: git_oid
  oid :: string
  parentoid :: string
  author :: "git_signature option"
  summary :: "string option"
  msg :: "string option"
  stats :: "git_diff_stats option"
  diff :: git_diff
  commit :: git_commit
  parent :: "git_commit option"
  commit_tree :: git_tree
  parent_tree :: "git_tree option"
  addcount :: nat
  delcount :: nat
  filecount :: nat

text \<open>
  Lines 87 to 93: the first parent and its tree. The outer \<open>None\<close> is \<^verbatim>\<open>goto err\<close>; a commit
  without a first parent (or whose parent cannot be loaded) continues with both pointers
  \<^verbatim>\<open>NULL\<close>.
\<close>

definition commitinfo_parent ::
  "collaborators \<Rightarrow> git_commit \<Rightarrow> (git_commit option \<times> git_tree option) option" where
  "commitinfo_parent e c =
     (case git_commit_parent e c 0 of
        Some p \<Rightarrow>
          (case git_commit_tree e p of
             None \<Rightarrow> None
           | Some pt \<Rightarrow> Some (Some p, Some pt))
      | None \<Rightarrow> Some (None, None))"

definition commitinfo_getbyoid :: "collaborators \<Rightarrow> git_oid \<Rightarrow> commitinfo option" where
  "commitinfo_getbyoid e i =
     (case git_commit_lookup e i of
        None \<Rightarrow> None
      | Some c \<Rightarrow>
          (case git_commit_tree e c of
             None \<Rightarrow> None
           | Some ct \<Rightarrow>
               (case commitinfo_parent e c of
                  None \<Rightarrow> None
                | Some (p, pt) \<Rightarrow>
                    (case diff_tree_to_tree e pt (Some ct) [GIT_DIFF_DISABLE_PATHSPEC_MATCH] of
                       None \<Rightarrow> None
                     | Some d \<Rightarrow>
                         (case diff_get_stats e d of
                            None \<Rightarrow> None
                          | Some st \<Rightarrow>
                              Some \<lparr>ci_id = i,
                                    oid = git_oid_tostr (GIT_OID_HEXSZ + 1) (Some (commit_id c)),
                                    parentoid =
                                      git_oid_tostr (GIT_OID_HEXSZ + 1) (git_commit_parent_id c 0),
                                    author = commit_author c,
                                    summary = commit_summary c,
                                    msg = commit_message c,
                                    stats = Some st,
                                    diff = d,
                                    commit = c,
                                    parent = p,
                                    commit_tree = ct,
                                    parent_tree = pt,
                                    addcount = stats_insertions st,
                                    delcount = stats_deletions st,
                                    filecount = stats_files_changed st\<rparr>)))))"

subsection \<open>The host file system and the program's global variables\<close>

text \<open>
  The files under the working directory by path, the directories that exist, and the
  paths at which nothing may be created. \<^verbatim>\<open>dirname\<close> is the one of the C library, for paths
  that do not start with two slashes (where implementations differ); the program calls it
  on paths that start with \<^verbatim>\<open>file/\<close>. Writing
  to an open stream is taken to succeed; a stream's bytes become the file's content.
\<close>

datatype errno = EEXIST | ENOENT | EACCES

record filesystem =
  files :: "string \<rightharpoonup> string"
  dirs :: "string set"
  denied :: "string set"

definition strip_slashes :: "string \<Rightarrow> string" where
  "strip_slashes s = rev (dropWhile (\<lambda>c. c = CHR ''/'') (rev s))"

definition dirname :: "string \<Rightarrow> string" where
  "dirname path =
     (let p = strip_slashes path in
      if CHR ''/'' \<notin> set p then (if p = [] \<and> path \<noteq> [] then ''/'' else ''.'')
      else
        (let d = strip_slashes (rev (dropWhile (\<lambda>c. c \<noteq> CHR ''/'') (rev p)))
         in if d = [] then ''/'' else d))"

definition dir_exists :: "filesystem \<Rightarrow> string \<Rightarrow> bool" where
  "dir_exists f d = (d = ''.'' \<or> d = ''/'' \<or> d \<in> dirs f)"

text \<open>\<^verbatim>\<open>access(path, F_OK)\<close>: 0 when something exists at the path.\<close>

definition access :: "filesystem \<Rightarrow> string \<Rightarrow> int" where
  "access f path = (if files f path \<noteq> None \<or> dir_exists f path then 0 else - 1)"

text \<open>\<^verbatim>\<open>mkdir\<close>: \<open>None\<close> is success, otherwise the \<^verbatim>\<open>errno\<close> of the failure.\<close>

definition mkdir :: "filesystem \<Rightarrow> string \<Rightarrow> errno option \<times> filesystem" where
  "mkdir f path =
     (if path = [] then (Some ENOENT, f)
      else if files f path \<noteq> None \<or> dir_exists f path then (Some EEXIST, f)
      else if \<not> dir_exists f (dirname path) then (Some ENOENT, f)
      else if path \<in> denied f then (Some EACCES, f)
      else (None, f\<lparr>dirs := insert path (dirs f)\<rparr>))"

text \<open>
  \<^verbatim>\<open>mkdirp\<close>: the loop visits the positions \<open>p\<close> of \<^verbatim>\<open>tmp\<close> in turn; at a \<^verbatim>\<open>'/'\<close> it makes the
  directory named by the bytes before \<open>p\<close>. After the loop it makes \<^verbatim>\<open>tmp\<close> itself.
\<close>

fun mkdirp_loop :: "filesystem \<Rightarrow> string \<Rightarrow> nat list \<Rightarrow> int \<times> filesystem" where
  "mkdirp_loop f tmp [] =
     (case mkdir f tmp of
        (Some er, f') \<Rightarrow> if er \<noteq> EEXIST then (- 1, f') else (0, f')
      | (None, f') \<Rightarrow> (0, f'))"
| "mkdirp_loop f tmp (p # ps) =
     (if tmp ! p \<noteq> CHR ''/'' then mkdirp_loop f tmp ps
      else
        (case mkdir f (take p tmp) of
           (Some er, f') \<Rightarrow> if er \<noteq> EEXIST then (- 1, f') else mkdirp_loop f' tmp ps
         | (None, f') \<Rightarrow> mkdirp_loop f' tmp ps))"

definition mkdirp :: "filesystem \<Rightarrow> string \<Rightarrow> int \<times> filesystem" where
  "mkdirp f path =
     (let tmp = take (PATH_MAX - 1) (cstr path)
      in mkdirp_loop f tmp [(if first_byte_set tmp \<and> hd tmp = CHR ''/'' then 1 else 0) ..< length tmp])"

text \<open>\<^verbatim>\<open>err(1, ...)\<close> ends the process: the function does not return.\<close>

datatype error = Err int string

text \<open>Whether \<^verbatim>\<open>fopen(path, "w")\<close> succeeds.\<close>

definition fopen_w :: "filesystem \<Rightarrow> string \<Rightarrow> bool" where
  "fopen_w f path =
     (path \<noteq> [] \<and> \<not> dir_exists f path \<and> dir_exists f (dirname path) \<and> path \<notin> denied f)"

definition efopen :: "filesystem \<Rightarrow> string \<Rightarrow> error + unit" where
  "efopen f path = (if fopen_w f path then Inr () else Inl (Err 1 ''fopen''))"

text \<open>\<^verbatim>\<open>fclose\<close> of a stream opened with \<^verbatim>\<open>"w"\<close> on which the bytes \<open>out\<close> were written.\<close>

definition fclose :: "filesystem \<Rightarrow> string \<Rightarrow> string \<Rightarrow> filesystem" where
  "fclose f path out = f\<lparr>files := (files f)(path \<mapsto> out)\<rparr>"

text \<open>The static variables of the program, and the file system it runs on.\<close>

record globals =
  relpath :: string
  name :: string
  stripped_name :: string
  description :: string
  cloneurl :: string
  hasreadme :: int
  haslicense :: int
  fs :: filesystem

subsection \<open>Times\<close>

text \<open>
  \<^verbatim>\<open>printtimeformat\<close> adds the offset, in seconds, to the time and prints \<^verbatim>\<open>gmtime\<close> of the sum
  with \<^verbatim>\<open>strftime\<close> into 32 bytes. The time is taken to be one that \<^verbatim>\<open>gmtime\<close> can represent
  and the offset one whose product with 60 fits an \<^verbatim>\<open>int\<close>, as for every time that a commit
  made by git carries; the text of a time is whatever the C library then prints.
\<close>

definition printtimeformat :: "collaborators \<Rightarrow> git_time \<Rightarrow> string \<Rightarrow> string" where
  "printtimeformat e intime fmt = cstr (strftime_gmtime e 32 fmt (time intime + offset intime * 60))"

definition printtimez :: "collaborators \<Rightarrow> git_time \<Rightarrow> string" where
  "printtimez e intime = printtimeformat e intime ''%Y-%m-%dT%H:%M:%SZ''"

definition printtime :: "collaborators \<Rightarrow> git_time \<Rightarrow> string" where
  "printtime e intime = printtimeformat e intime ''%a %b %e %T %Y''"

definition printtimeshort :: "collaborators \<Rightarrow> git_time \<Rightarrow> string" where
  "printtimeshort e intime = printtimeformat e intime ''%Y-%m-%d %H:%M''"

subsection \<open>The page shell\<close>

definition writeheader :: "globals \<Rightarrow> string" where
  \<open>writeheader g =
     ''<!DOCTYPE html>\<newline>''
     @ ''<html dir="ltr" lang="en">\<newline><head>\<newline>''
     @ ''<meta http-equiv="Content-Type" content="text/html; charset=UTF-8" />\<newline>''
     @ ''<meta http-equiv="Content-Language" content="en" />\<newline><title>''
     @ xmlencode (stripped_name g) (strlen (stripped_name g))
     @ (if first_byte_set (description g) then '' - '' else [])
     @ xmlencode (description g) (strlen (description g))
     @ ''</title>\<newline><link rel="icon" type="image/png" href="'' @ cstr (relpath g)
     @ ''favicon.png" />\<newline>''
     @ ''<link rel="alternate" type="application/atom+xml" title="'' @ cstr (name g)
     @ '' Atom Feed" href="'' @ cstr (relpath g) @ ''atom.xml" />\<newline>''
     @ ''<link rel="stylesheet" type="text/css" href="'' @ cstr (relpath g)
     @ ''style.css" />\<newline>''
     @ ''</head>\<newline><body>\<newline><table><tr><td>''
     @ ''<a href="../'' @ cstr (relpath g) @ ''"><img src="'' @ cstr (relpath g)
     @ ''logo.png" alt="" width="32" height="32" /></a>''
     @ ''</td><td><h1>''
     @ xmlencode (stripped_name g) (strlen (stripped_name g))
     @ ''</h1><span class="desc">''
     @ xmlencode (description g) (strlen (description g))
     @ ''</span></td></tr>''
     @ (if first_byte_set (cloneurl g)
        then ''<tr class="url"><td></td><td>git clone <a href="''
             @ xmlencode (cloneurl g) (strlen (cloneurl g))
             @ ''">''
             @ xmlencode (cloneurl g) (strlen (cloneurl g))
             @ ''</a></td></tr>''
        else [])
     @ ''<tr><td></td><td>\<newline>''
     @ ''<a href="'' @ cstr (relpath g) @ ''log.html">Log</a> | ''
     @ ''<a href="'' @ cstr (relpath g) @ ''files.html">Files</a> | ''
     @ ''<a href="'' @ cstr (relpath g) @ ''refs.html">Refs</a>''
     @ (if hasreadme g \<noteq> 0
        then '' | <a href="'' @ cstr (relpath g) @ ''file/README.html">README</a>'' else [])
     @ (if haslicense g \<noteq> 0
        then '' | <a href="'' @ cstr (relpath g) @ ''file/LICENSE.html">LICENSE</a>'' else [])
     @ ''</td></tr></table>\<newline><hr/>\<newline><div id="content">\<newline>''\<close>

definition writefooter :: string where
  \<open>writefooter = ''</div>\<newline></body>\<newline></html>\<newline>''\<close>

subsection \<open>The blob page\<close>

text \<open>The format \<^verbatim>\<open>nfmt\<close>, printed with the \<^verbatim>\<open>size_t\<close> counter \<open>n\<close> under \<^verbatim>\<open>%d\<close>.\<close>

definition nfmt :: "nat \<Rightarrow> string" where
  \<open>nfmt n =
     ''<a href="#l'' @ fmt_d (int_of_size_t n) @ ''" id="l'' @ fmt_d (int_of_size_t n) @ ''">''
     @ fmt_d (int_of_size_t n) @ ''</a>\<newline>''\<close>

text \<open>
  \<^verbatim>\<open>for (i = 0; i < len - 1; i++)\<close> over the bytes \<^verbatim>\<open>s[0]\<close> to \<^verbatim>\<open>s[len - 2]\<close>, with the
  counter \<open>n\<close>: the anchors printed and the final counter.
\<close>

fun writeblobhtml_loop :: "string \<Rightarrow> nat \<Rightarrow> string \<times> nat" where
  "writeblobhtml_loop [] n = ([], n)"
| "writeblobhtml_loop (c # s) n =
     (if c = CHR 0x0A
      then (case writeblobhtml_loop s (Suc n) of (out, n') \<Rightarrow> (nfmt (Suc n) @ out, n'))
      else writeblobhtml_loop s n)"

text \<open>The anchors and the counter \<open>n\<close> after lines 296 to 305.\<close>

definition writeblobhtml_lines :: "string \<Rightarrow> string \<times> nat" where
  "writeblobhtml_lines s =
     (let len = length s in
      if len \<noteq> 0
      then (case writeblobhtml_loop (take (len - 1) s) 1 of (out, n) \<Rightarrow> (nfmt 1 @ out, n))
      else ([], 0))"

definition writeblobhtml :: "git_blob \<Rightarrow> string \<times> int" where
  \<open>writeblobhtml blob =
     (let s = rawcontent blob; len = length s in
      case writeblobhtml_lines s of
        (anchors, n) \<Rightarrow>
          (''<table id="blob"><tr><td class="num"><pre>\<newline>''
           @ anchors
           @ ''</pre></td><td><pre>\<newline>''
           @ xmlencode s len
           @ ''</pre></td></tr></table>\<newline>'',
           int_of_size_t n))\<close>

subsection \<open>The commit page\<close>

text \<open>The three conditional blocks of \<^verbatim>\<open>printcommit\<close>, then the function.\<close>

definition printcommit_parent :: "string \<Rightarrow> commitinfo \<Rightarrow> string" where
  \<open>printcommit_parent rel ci =
     (if first_byte_set (parentoid ci)
      then ''<b>parent</b> <a href="'' @ cstr rel @ ''commit/'' @ cstr (parentoid ci)
           @ ''.html">'' @ cstr (parentoid ci) @ ''</a>\<newline>''
      else [])\<close>

definition printcommit_author :: "collaborators \<Rightarrow> commitinfo \<Rightarrow> string" where
  \<open>printcommit_author e ci =
     (case author ci of
        None \<Rightarrow> []
      | Some a \<Rightarrow>
          ''<b>Author:</b> ''
          @ xmlencode (sig_name a) (strlen (sig_name a))
          @ '' &lt;<a href="mailto:''
          @ xmlencode (sig_email a) (strlen (sig_email a))
          @ ''">''
          @ xmlencode (sig_email a) (strlen (sig_email a))
          @ ''</a>&gt;\<newline><b>Date:</b>   ''
          @ printtime e (sig_when a)
          @ ''\<newline>'')\<close>

definition printcommit_msg :: "commitinfo \<Rightarrow> string" where
  \<open>printcommit_msg ci =
     (case msg ci of
        None \<Rightarrow> []
      | Some m \<Rightarrow> ''\<newline>'' @ xmlencode m (strlen m) @ ''\<newline>'')\<close>

definition printcommit :: "collaborators \<Rightarrow> globals \<Rightarrow> commitinfo \<Rightarrow> string" where
  \<open>printcommit e g ci =
     ''<b>commit</b> <a href="'' @ cstr (relpath g) @ ''commit/'' @ cstr (oid ci)
     @ ''.html">'' @ cstr (oid ci) @ ''</a>\<newline>''
     @ printcommit_parent (relpath g) ci
     @ printcommit_author e ci
     @ printcommit_msg ci\<close>

definition GIT_DIFF_FLAG_BINARY :: "32 word" where
  "GIT_DIFF_FLAG_BINARY = 1"

text \<open>One line of a hunk (lines 410 to 420), for hunk \<open>j\<close> and line \<open>k\<close>.\<close>

definition printshowfile_line :: "nat \<Rightarrow> nat \<Rightarrow> git_diff_line \<Rightarrow> string" where
  \<open>printshowfile_line j k line =
     (if old_lineno line = - 1
      then ''<a href="#h'' @ fmt_zu j @ ''-'' @ fmt_zu k @ ''" id="h'' @ fmt_zu j @ ''-''
           @ fmt_zu k @ ''" class="i">+''
      else if new_lineno line = - 1
      then ''<a href="#h'' @ fmt_zu j @ ''-'' @ fmt_zu k @ ''" id="h'' @ fmt_zu j @ ''-''
           @ fmt_zu k @ ''" class="d">-''
      else '' '')
     @ xmlencode (content line) (content_len line)
     @ (if old_lineno line = - 1 \<or> new_lineno line = - 1 then ''</a>'' else [])\<close>

text \<open>
  \<^verbatim>\<open>for (k = 0; ; k++)\<close>: \<^verbatim>\<open>git_patch_get_line_in_hunk\<close> fails, and the loop breaks, when \<open>k\<close>
  reaches the number of lines of the hunk.
\<close>

fun printshowfile_lines :: "nat \<Rightarrow> nat \<Rightarrow> git_diff_line list \<Rightarrow> string" where
  "printshowfile_lines j k [] = []"
| "printshowfile_lines j k (line # ls) =
     printshowfile_line j k line @ printshowfile_lines j (Suc k) ls"

text \<open>\<^verbatim>\<open>for (j = 0; j < nhunks; j++)\<close>: \<^verbatim>\<open>git_patch_get_hunk\<close> succeeds for \<open>j < nhunks\<close>.\<close>

fun printshowfile_hunks :: "nat \<Rightarrow> git_diff_hunk list \<Rightarrow> string" where
  \<open>printshowfile_hunks j [] = []\<close>
| \<open>printshowfile_hunks j (hunk # hs) =
     ''<a href="#h'' @ fmt_zu j @ ''" id="h'' @ fmt_zu j @ ''" class="h">''
     @ xmlencode (header hunk) (header_len hunk)
     @ ''</a>''
     @ printshowfile_lines j 0 (hunk_lines hunk)
     @ printshowfile_hunks (Suc j) hs\<close>

text \<open>\<^verbatim>\<open>for (i = 0; i < ndeltas; i++)\<close>: a failing \<^verbatim>\<open>git_patch_from_diff\<close> breaks the loop.\<close>

fun printshowfile_deltas :: "string \<Rightarrow> git_patch option list \<Rightarrow> string" where
  \<open>printshowfile_deltas rel [] = []\<close>
| \<open>printshowfile_deltas rel (None # ps) = []\<close>
| \<open>printshowfile_deltas rel (Some patch # ps) =
     ''<b>diff --git a/<a href="'' @ cstr rel @ ''file/''
     @ cstr (old_file_path (patch_delta patch)) @ ''.html">''
     @ cstr (old_file_path (patch_delta patch)) @ ''</a> b/<a href="'' @ cstr rel @ ''file/''
     @ cstr (new_file_path (patch_delta patch)) @ ''.html">''
     @ cstr (new_file_path (patch_delta patch)) @ ''</a></b>\<newline>''
     @ (if flags (patch_delta patch) AND GIT_DIFF_FLAG_BINARY \<noteq> 0
        then ''Binary files differ\<newline>''
        else printshowfile_hunks 0 (patch_hunks patch))
     @ printshowfile_deltas rel ps\<close>

text \<open>Lines 368 to 375: the diffstat block.\<close>

definition printshowfile_stat :: "commitinfo \<Rightarrow> string" where
  \<open>printshowfile_stat ci =
     (case stats ci of
        None \<Rightarrow> []
      | Some st \<Rightarrow>
          (case stats_to_buf st of
             None \<Rightarrow> []
           | Some buf \<Rightarrow>
               if first_byte_set buf
               then ''<b>Diffstat:</b>\<newline>'' @ xmlencode buf (strlen buf)
               else []))\<close>

definition printshowfile_path :: "commitinfo \<Rightarrow> string" where
  "printshowfile_path ci = snprintf PATH_MAX (''commit/'' @ cstr (oid ci) @ ''.html'')"

text \<open>The bytes of the commit page, from \<^verbatim>\<open>writeheader\<close> to \<^verbatim>\<open>writefooter\<close>.\<close>

definition printshowfile_page :: "collaborators \<Rightarrow> globals \<Rightarrow> commitinfo \<Rightarrow> string" where
  \<open>printshowfile_page e g ci =
     writeheader g
     @ ''<pre>''
     @ printcommit e g ci
     @ printshowfile_stat ci
     @ ''<hr/>''
     @ printshowfile_deltas (relpath g) (diff_patches (diff ci))
     @ ''</pre>\<newline>''
     @ writefooter\<close>

definition printshowfile :: "collaborators \<Rightarrow> globals \<Rightarrow> commitinfo \<Rightarrow> error + globals" where
  "printshowfile e g ci =
     (let path = printshowfile_path ci in
      if access (fs g) path = 0 then Inr g
      else
        (case efopen (fs g) path of
           Inl x \<Rightarrow> Inl x
         | Inr fp \<Rightarrow> Inr (g\<lparr>fs := fclose (fs g) path (printshowfile_page e g ci)\<rparr>)))"

subsection \<open>The log\<close>

text \<open>
  Modelled from the spec: \<^verbatim>\<open>config.h\<close>, which declares \<^verbatim>\<open>summarylen\<close>, is not among the
  sources. The specification calls it the configured character budget of a summary; it is
  a parameter here, an \<^verbatim>\<open>unsigned\<close> value, so that \<^verbatim>\<open>summarylen - 1\<close> wraps at 0.
\<close>

type_synonym config_summarylen = "32 word"

definition ellipsis :: string where
  "ellipsis = [CHR 0xE2, CHR 0x80, CHR 0xA6]"

text \<open>Lines 462 to 467: the text of the summary inside its link.\<close>

definition writelog_summary :: "config_summarylen \<Rightarrow> string \<Rightarrow> string" where
  "writelog_summary summarylen s =
     (let len = strlen s in
      if len > unat summarylen
      then xmlencode s (unat (summarylen - 1)) @ ellipsis
      else xmlencode s len)"

text \<open>Lines 456 to 479: one row of the log table, printed with the cursor \<open>rel\<close>.\<close>

definition writelog_row ::
  "collaborators \<Rightarrow> config_summarylen \<Rightarrow> string \<Rightarrow> commitinfo \<Rightarrow> string" where
  \<open>writelog_row e summarylen rel ci =
     ''<tr><td>''
     @ (case author ci of None \<Rightarrow> [] | Some a \<Rightarrow> printtimeshort e (sig_when a))
     @ ''</td><td>''
     @ (case summary ci of
          None \<Rightarrow> []
        | Some s \<Rightarrow>
            ''<a href="'' @ cstr rel @ ''commit/'' @ cstr (oid ci) @ ''.html">''
            @ writelog_summary summarylen s
            @ ''</a>'')
     @ ''</td><td>''
     @ (case author ci of None \<Rightarrow> [] | Some a \<Rightarrow> xmlencode (sig_name a) (strlen (sig_name a)))
     @ ''</td><td class="num">''
     @ fmt_zu (filecount ci)
     @ ''</td><td class="num">''
     @ ''+'' @ fmt_zu (addcount ci)
     @ ''</td><td class="num">''
     @ ''-'' @ fmt_zu (delcount ci)
     @ ''</td></tr>\<newline>''\<close>

text \<open>
  \<^verbatim>\<open>while (!git_revwalk_next(&id, w))\<close> over the identifiers the walker returns: the rows
  printed and the globals after the loop, or the error that ended the process.
\<close>

fun writelog_loop ::
  "collaborators \<Rightarrow> config_summarylen \<Rightarrow> git_oid list \<Rightarrow> globals \<Rightarrow> error + (string \<times> globals)"
where
  "writelog_loop e summarylen [] g = Inr ([], g)"
| "writelog_loop e summarylen (i # ids) g =
     (let g1 = g\<lparr>relpath := []\<rparr> in
      case commitinfo_getbyoid e i of
        None \<Rightarrow> Inr ([], g1)
      | Some ci \<Rightarrow>
          (let row = writelog_row e summarylen (relpath g1) ci;
               g2 = g1\<lparr>relpath := ''../''\<rparr>
           in case printshowfile e g2 ci of
                Inl x \<Rightarrow> Inl x
              | Inr g3 \<Rightarrow>
                  (case writelog_loop e summarylen ids g3 of
                     Inl x \<Rightarrow> Inl x
                   | Inr (out, g4) \<Rightarrow> Inr (row @ out, g4))))"

definition writelog_walk :: "git_oid \<Rightarrow> git_revwalk" where
  "writelog_walk i =
     git_revwalk_simplify_first_parent
       (git_revwalk_sorting (git_revwalk_push git_revwalk_new i) GIT_SORT_TIME)"

definition writelog ::
  "collaborators \<Rightarrow> config_summarylen \<Rightarrow> globals \<Rightarrow> git_oid \<Rightarrow> error + (int \<times> string \<times> globals)"
where
  \<open>writelog e summarylen g i =
     (case writelog_loop e summarylen (revwalk_next e (writelog_walk i)) g of
        Inl x \<Rightarrow> Inl x
      | Inr (rows, g') \<Rightarrow>
          Inr (0,
               ''<table id="log"><thead>\<newline><tr><td>Age</td><td>Commit message</td>''
               @ ''<td>Author</td><td>Files</td><td class="num">+</td>''
               @ ''<td class="num">-</td></tr>\<newline></thead><tbody>\<newline>''
               @ rows
               @ ''</tbody></table>'',
               g'\<lparr>relpath := []\<rparr>))\<close>

subsection \<open>The feed\<close>

definition printcommitatom :: "collaborators \<Rightarrow> commitinfo \<Rightarrow> string" where
  \<open>printcommitatom e ci =
     ''<entry>\<newline>''
     @ ''<id>'' @ cstr (oid ci) @ ''</id>\<newline>''
     @ (case author ci of
          None \<Rightarrow> []
        | Some a \<Rightarrow> ''<updated>'' @ printtimez e (sig_when a) @ ''</updated>\<newline>'')
     @ (case summary ci of
          None \<Rightarrow> []
        | Some s \<Rightarrow> ''<title type="text">'' @ xmlencode s (strlen s) @ ''</title>\<newline>'')
     @ ''<content type="text">''
     @ ''commit '' @ cstr (oid ci) @ ''\<newline>''
     @ (if first_byte_set (parentoid ci)
        then ''parent '' @ cstr (parentoid ci) @ ''\<newline>'' else [])
     @ (case author ci of
          None \<Rightarrow> []
        | Some a \<Rightarrow>
            ''Author: ''
            @ xmlencode (sig_name a) (strlen (sig_name a))
            @ '' &lt;''
            @ xmlencode (sig_email a) (strlen (sig_email a))
            @ ''&gt;\<newline>Date:   ''
            @ printtime e (sig_when a)
            @ ''\<newline>'')
     @ (case msg ci of
          None \<Rightarrow> []
        | Some m \<Rightarrow> ''\<newline>'' @ xmlencode m (strlen m))
     @ ''\<newline></content>\<newline>''
     @ (case author ci of
          None \<Rightarrow> []
        | Some a \<Rightarrow>
            ''<author><name>''
            @ xmlencode (sig_name a) (strlen (sig_name a))
            @ ''</name>\<newline><email>''
            @ xmlencode (sig_email a) (strlen (sig_email a))
            @ ''</email>\<newline></author>\<newline>'')
     @ ''</entry>\<newline>''\<close>

text \<open>
  \<^verbatim>\<open>for (i = 0; i < m && !git_revwalk_next(&id, w); i++)\<close>: the snapshots that the loop
  hands to \<^verbatim>\<open>printcommitatom\<close>, in order.
\<close>

fun writeatom_loop :: "collaborators \<Rightarrow> nat \<Rightarrow> nat \<Rightarrow> git_oid list \<Rightarrow> commitinfo list" where
  "writeatom_loop e i m [] = []"
| "writeatom_loop e i m (x # xs) =
     (if i < m
      then (case commitinfo_getbyoid e x of
              None \<Rightarrow> []
            | Some ci \<Rightarrow> ci # writeatom_loop e (Suc i) m xs)
      else [])"

definition writeatom_walk :: git_revwalk where
  "writeatom_walk =
     git_revwalk_simplify_first_parent
       (git_revwalk_sorting (git_revwalk_push_head git_revwalk_new) GIT_SORT_TIME)"

definition writeatom_entries :: "collaborators \<Rightarrow> commitinfo list" where
  "writeatom_entries e = writeatom_loop e 0 100 (revwalk_next e writeatom_walk)"

definition writeatom :: "collaborators \<Rightarrow> globals \<Rightarrow> int \<times> string" where
  \<open>writeatom e g =
     (0,
      ''<?xml version="1.0" encoding="UTF-8"?>\<newline>''
      @ ''<feed xmlns="http://www.w3.org/2005/Atom">\<newline><title>''
      @ xmlencode (stripped_name g) (strlen (stripped_name g))
      @ '', branch HEAD</title>\<newline><subtitle>''
      @ xmlencode (description g) (strlen (description g))
      @ ''</subtitle>\<newline>''
      @ concat (map (printcommitatom e) (writeatom_entries e))
      @ ''</feed>'')\<close>

subsection \<open>Blob pages written to disk\<close>

definition xdirname :: "string \<Rightarrow> string" where
  "xdirname path = dirname (cstr path)"

text \<open>Lines 589 to 594: one \<^verbatim>\<open>../\<close> is appended to \<^verbatim>\<open>tmp\<close> for every \<^verbatim>\<open>'/'\<close> of \<^verbatim>\<open>fpath\<close>.\<close>

fun writeblob_tmp :: "string \<Rightarrow> string \<Rightarrow> string" where
  "writeblob_tmp [] tmp = tmp"
| "writeblob_tmp (c # p) tmp =
     (if c = CHR ''/'' then writeblob_tmp p (strlcat tmp ''../'' PATH_MAX) else writeblob_tmp p tmp)"

text \<open>
  \<^verbatim>\<open>writeblob\<close> returns the line count \<^verbatim>\<open>lc\<close> and leaves the globals changed. The test of
  \<^verbatim>\<open>ferror\<close> is never true, since writes to a stream are taken to succeed. The size is printed
  as an \<^verbatim>\<open>uintmax_t\<close>.
\<close>

definition writeblob ::
  "globals \<Rightarrow> git_blob \<Rightarrow> string \<Rightarrow> string \<Rightarrow> int \<Rightarrow> error + (int \<times> globals)" where
  \<open>writeblob g obj fpath filename filesize =
     (case mkdirp (fs g) (xdirname fpath) of
        (r, f1) \<Rightarrow>
          if r \<noteq> 0 then Inr (- 1, g\<lparr>fs := f1\<rparr>)
          else
            (let g1 = g\<lparr>relpath := writeblob_tmp (cstr fpath) [], fs := f1\<rparr> in
             case efopen (fs g1) (cstr fpath) of
               Inl x \<Rightarrow> Inl x
             | Inr fp \<Rightarrow>
                 (case (if is_binary obj then (''<p>Binary file</p>\<newline>'', 0)
                        else writeblobhtml obj) of
                    (body, lc) \<Rightarrow>
                      Inr (lc,
                           g1\<lparr>relpath := [],
                              fs := fclose (fs g1) (cstr fpath)
                                      (writeheader g1
                                       @ ''<p> ''
                                       @ xmlencode filename (strlen filename)
                                       @ '' ('' @ fmt_zu (nat (filesize mod 2 ^ 64)) @ ''B)''
                                       @ ''</p><hr/>''
                                       @ body
                                       @ writefooter)\<rparr>))))\<close>

subsection \<open>The references page\<close>

definition refs_cmp :: "git_reference \<Rightarrow> git_reference \<Rightarrow> int" where
  "refs_cmp r1 r2 =
     (let t1 = git_reference_is_branch r1; t2 = git_reference_is_branch r2 in
      if t1 \<noteq> t2 then t1 - t2
      else strcmp (git_reference_shorthand r1) (git_reference_shorthand r2))"

text \<open>
  \<^verbatim>\<open>qsort\<close> of the C library orders an array by a comparison function: an element goes
  before every element that the function does not rank below it. It is taken here as
  sorting by insertion.
\<close>

fun qsort_insert :: "('a \<Rightarrow> 'a \<Rightarrow> int) \<Rightarrow> 'a \<Rightarrow> 'a list \<Rightarrow> 'a list" where
  "qsort_insert cmp x [] = [x]"
| "qsort_insert cmp x (y # ys) =
     (if cmp x y \<le> 0 then x # y # ys else y # qsort_insert cmp x ys)"

definition qsort :: "'a list \<Rightarrow> ('a \<Rightarrow> 'a \<Rightarrow> int) \<Rightarrow> 'a list" where
  "qsort xs cmp = foldr (qsort_insert cmp) xs []"

text \<open>How the body of a loop ends before its last statement, or the value it goes on with.\<close>

datatype 'a step = Got 'a | Continue | Break | Goto_err

text \<open>Lines 808 to 815, for the reference \<open>r\<close> chosen by the \<^verbatim>\<open>switch\<close>.\<close>

definition writerefs_target ::
  "collaborators \<Rightarrow> git_reference \<Rightarrow> (git_reference \<times> commitinfo) step" where
  "writerefs_target e r =
     (case git_reference_target r of
        None \<Rightarrow> Goto_err
      | Some t \<Rightarrow>
          (case reference_peel e r of
             None \<Rightarrow> Goto_err
           | Some obj \<Rightarrow>
               (case git_object_id obj of
                  None \<Rightarrow> Goto_err
                | Some i \<Rightarrow>
                    (case commitinfo_getbyoid e i of
                       None \<Rightarrow> Break
                     | Some ci \<Rightarrow> Got (r, ci)))))"

text \<open>Lines 796 to 815.\<close>

definition writerefs_resolve ::
  "collaborators \<Rightarrow> git_reference \<Rightarrow> (git_reference \<times> commitinfo) step" where
  "writerefs_resolve e ref =
     (case git_reference_type ref of
        GIT_REF_SYMBOLIC \<Rightarrow>
          (case reference_resolve e ref of
             None \<Rightarrow> Goto_err
           | Some dref \<Rightarrow> writerefs_target e dref)
      | GIT_REF_OID \<Rightarrow> writerefs_target e ref
      | GIT_REF_INVALID \<Rightarrow> Continue)"

text \<open>Lines 819 to 821: the head of table \<open>j\<close>.\<close>

definition writerefs_head :: "nat \<Rightarrow> string" where
  \<open>writerefs_head j =
     ''<h2>'' @ [''Branches'', ''Tags''] ! j @ ''</h2><table id="'' @ [''branches'', ''tags''] ! j
     @ ''"><thead>\<newline><tr><td>'' @ [''Branch'', ''Tag''] ! j @ ''</td>''
     @ ''<td>Age</td><td>Author</td>\<newline></tr>\<newline></thead><tbody>\<newline>''\<close>

text \<open>Lines 825 to 835: the row of the reference \<open>r\<close> with the snapshot \<open>ci\<close>.\<close>

definition writerefs_row :: "collaborators \<Rightarrow> git_reference \<Rightarrow> commitinfo \<Rightarrow> string" where
  \<open>writerefs_row e r ci =
     ''<tr><td>''
     @ xmlencode (git_reference_shorthand r) (strlen (git_reference_shorthand r))
     @ ''</td><td>''
     @ (case author ci of None \<Rightarrow> [] | Some a \<Rightarrow> printtimeshort e (sig_when a))
     @ ''</td><td>''
     @ (case author ci of None \<Rightarrow> [] | Some a \<Rightarrow> xmlencode (sig_name a) (strlen (sig_name a)))
     @ ''</td></tr>\<newline>''\<close>

text \<open>
  \<^verbatim>\<open>for (i = 0, count = 0; i < refcount; i++)\<close> for one \<open>j\<close>, over the references from
  \<^verbatim>\<open>refs[i]\<close> on: what is printed, the final \<^verbatim>\<open>count\<close>, the globals, and whether the loop
  was left by \<^verbatim>\<open>goto err\<close>.
\<close>

fun writerefs_loop ::
  "collaborators \<Rightarrow> nat \<Rightarrow> git_reference list \<Rightarrow> nat \<Rightarrow> globals
     \<Rightarrow> string \<times> nat \<times> globals \<times> bool"
where
  "writerefs_loop e j [] count g = ([], count, g, False)"
| "writerefs_loop e j (ref # refs) count g =
     (if \<not> (git_reference_is_branch ref \<noteq> 0 \<and> j = 0)
         \<and> \<not> (git_reference_is_tag ref \<noteq> 0 \<and> j = 1)
      then writerefs_loop e j refs count g
      else
        (case writerefs_resolve e ref of
           Continue \<Rightarrow> writerefs_loop e j refs count g
         | Goto_err \<Rightarrow> ([], count, g, True)
         | Break \<Rightarrow> ([], count, g, False)
         | Got (r, ci) \<Rightarrow>
             (let out = (if Suc count = 1 then writerefs_head j else []) @ writerefs_row e r ci;
                  g1 = g\<lparr>relpath := []\<rparr>;
                  g2 = g1\<lparr>relpath := ''../''\<rparr>
              in case writerefs_loop e j refs (Suc count) g2 of
                   (out', count', g', err) \<Rightarrow> (out @ out', count', g', err))))"

text \<open>\<^verbatim>\<open>for (j = 0; j < 2; j++)\<close>, over the values of \<open>j\<close> still to come.\<close>

fun writerefs_tables ::
  "collaborators \<Rightarrow> nat list \<Rightarrow> git_reference list \<Rightarrow> globals \<Rightarrow> string \<times> globals" where
  \<open>writerefs_tables e [] refs g = ([], g)\<close>
| \<open>writerefs_tables e (j # js) refs g =
     (case writerefs_loop e j refs 0 g of
        (out, count, g', err) \<Rightarrow>
          if err then (out, g')
          else
            (case writerefs_tables e js refs g' of
               (out', g'') \<Rightarrow>
                 (out @ (if count \<noteq> 0 then ''</tbody></table><br/>'' else []) @ out', g'')))\<close>

definition writerefs :: "collaborators \<Rightarrow> globals \<Rightarrow> int \<times> string \<times> globals" where
  "writerefs e g =
     (case reference_list e of
        None \<Rightarrow> (- 1, [], g)
      | Some refs0 \<Rightarrow>
          (case writerefs_tables e [0 ..< 2] (qsort refs0 refs_cmp) g of
             (out, g') \<Rightarrow> (0, out, g')))"

subsection \<open>Quantities the specification names\<close>

text \<open>
  The line count the specification gives for a blob of content \<open>s\<close>: zero for empty
  content, otherwise one more than the number of newline bytes among all bytes but the
  last.
\<close>

definition blob_line_count :: "string \<Rightarrow> nat" where
  "blob_line_count s =
     (if s = [] then 0 else 1 + length (filter (\<lambda>c. c = CHR 0x0A) (take (length s - 1) s)))"

text \<open>A blob of \<open>2\<^sup>3\<^sup>1\<close> newline bytes.\<close>

definition big_blob :: git_blob where
  "big_blob = \<lparr>rawcontent = replicate (2 ^ 31) (CHR 0x0A), is_binary = False\<rparr>"

subsection \<open>A small repository\<close>

text \<open>
  One root commit, of identifier 1 and tree 2, made by one author; the branch
  \<^verbatim>\<open>refs/heads/master\<close> and the tag \<^verbatim>\<open>refs/tags/v1\<close> point at it. Every diff is empty.
\<close>

definition example_author :: git_signature where
  "example_author =
     \<lparr>sig_name = ''A U Thor'', sig_email = ''author@example.org'',
      sig_when = \<lparr>time = 0, offset = 0\<rparr>\<rparr>"

definition example_commit :: git_commit where
  \<open>example_commit =
     \<lparr>commit_id = 1, commit_parent_ids = [], commit_author = Some example_author,
      commit_summary = Some ''first'', commit_message = Some ''first\<newline>'',
      commit_tree_id = 2\<rparr>\<close>

definition example_stats :: git_diff_stats where
  "example_stats =
     \<lparr>stats_insertions = 0, stats_deletions = 0, stats_files_changed = 0,
      stats_to_buf = Some []\<rparr>"

definition example_master :: git_reference where
  "example_master =
     \<lparr>ref_name = ''refs/heads/master'', ref_type = GIT_REF_OID, ref_target = Some 1\<rparr>"

definition example_tag :: git_reference where
  "example_tag =
     \<lparr>ref_name = ''refs/tags/v1'', ref_type = GIT_REF_OID, ref_target = Some 1\<rparr>"

definition example_repo :: collaborators where
  "example_repo =
     \<lparr>odb_commits = (\<lambda>i. if i = 1 then Some example_commit else None),
      odb_has_tree = (\<lambda>t. t = 2),
      diff_tree_to_tree = (\<lambda>old new opts. Some \<lparr>diff_patches = []\<rparr>),
      diff_get_stats = (\<lambda>d. Some example_stats),
      reference_list = Some [example_master, example_tag],
      reference_resolve = (\<lambda>r. None),
      reference_peel =
        (\<lambda>r. case ref_target r of None \<Rightarrow> None | Some t \<Rightarrow> Some \<lparr>git_object_id = Some t\<rparr>),
      revwalk_next = (\<lambda>w. [1]),
      strftime_gmtime = (\<lambda>n fmt t. ''1970-01-01 00:00'')\<rparr>"

text \<open>The snapshot of that commit.\<close>

definition example_ci :: commitinfo where
  "example_ci =
     \<lparr>ci_id = 1, oid = git_oid_fmt 1, parentoid = [],
      author = Some example_author, summary = commit_summary example_commit,
      msg = commit_message example_commit, stats = Some example_stats,
      diff = \<lparr>diff_patches = []\<rparr>, commit = example_commit, parent = None,
      commit_tree = 2, parent_tree = None, addcount = 0, delcount = 0, filecount = 0\<rparr>"

text \<open>The globals at the start of a run in an empty directory, for a repository named
  \<^verbatim>\<open>repo.git\<close>.\<close>

definition example_globals :: globals where
  "example_globals =
     \<lparr>relpath = [], name = ''repo.git'', stripped_name = ''repo'', description = [],
      cloneurl = [], hasreadme = 0, haslicense = 0,
      fs = \<lparr>files = Map.empty, dirs = {}, denied = {}\<rparr>\<rparr>"

text \<open>The same globals once a file stands at the path of that commit's page.\<close>

definition example_written :: globals where
  "example_written =
     example_globals\<lparr>fs := fclose (fs example_globals) (printshowfile_path example_ci) ''old''\<rparr>"

subsection \<open>Quantities of the references page\<close>

text \<open>The test at lines 792 to 794, negated: whether pass \<open>j\<close> takes the reference.\<close>

definition writerefs_selects :: "nat \<Rightarrow> git_reference \<Rightarrow> bool" where
  "writerefs_selects j ref =
     ((git_reference_is_branch ref \<noteq> 0 \<and> j = 0) \<or> (git_reference_is_tag ref \<noteq> 0 \<and> j = 1))"

text \<open>Whether lines 796 to 815 reach a snapshot for the reference.\<close>

definition writerefs_resolves :: "collaborators \<Rightarrow> git_reference \<Rightarrow> bool" where
  "writerefs_resolves e ref = (case writerefs_resolve e ref of Got x \<Rightarrow> True | _ \<Rightarrow> False)"

text \<open>The rows of a list of references, and the table of pass \<open>j\<close> made of them: nothing for
  an empty list, otherwise the head, the rows and the foot.\<close>

definition writerefs_rows :: "collaborators \<Rightarrow> git_reference list \<Rightarrow> string" where
  "writerefs_rows e refs =
     concat (map (\<lambda>ref. case writerefs_resolve e ref of
                          Got (r, ci) \<Rightarrow> writerefs_row e r ci
                        | _ \<Rightarrow> []) refs)"

definition writerefs_table :: "collaborators \<Rightarrow> nat \<Rightarrow> git_reference list \<Rightarrow> string" where
  \<open>writerefs_table e j refs =
     (if refs = [] then []
      else writerefs_head j @ writerefs_rows e refs @ ''</tbody></table><br/>'')\<close>

text \<open>The branches and the tags of the sorted array, in its order.\<close>

definition writerefs_branches :: "git_reference list \<Rightarrow> git_reference list" where
  "writerefs_branches refs0 =
     filter (\<lambda>r. git_reference_is_branch r \<noteq> 0) (qsort refs0 refs_cmp)"

definition writerefs_tags :: "git_reference list \<Rightarrow> git_reference list" where
  "writerefs_tags refs0 =
     filter (\<lambda>r. git_reference_is_tag r \<noteq> 0) (qsort refs0 refs_cmp)"

text \<open>
  The order the specification names: two strings are in lexicographic order when they
  are equal or the first precedes the second in the lexicographic order of their bytes.
\<close>

definition lex_bytes :: "(string \<times> string) set" where
  "lex_bytes = lexord {(x, y). (of_char x :: nat) < of_char y}"

definition lex_le :: "string \<Rightarrow> string \<Rightarrow> bool" where
  "lex_le s1 s2 = (cstr s1 = cstr s2 \<or> (cstr s1, cstr s2) \<in> lex_bytes)"

definition by_shorthand :: "git_reference \<Rightarrow> git_reference \<Rightarrow> bool" where
  "by_shorthand a b = lex_le (git_reference_shorthand a) (git_reference_shorthand b)"

subsection \<open>Two damaged repositories\<close>

text \<open>
  In the first, the branch \<^verbatim>\<open>refs/heads/alias\<close> is a symbolic reference whose target does
  not exist, so \<^verbatim>\<open>git_reference_resolve\<close> fails for it. In the second, the branch
  \<^verbatim>\<open>refs/heads/lost\<close> points at commit 3, whose tree 4 is missing, so no snapshot can be
  built for it. Both keep the tag \<^verbatim>\<open>refs/tags/v1\<close> of the small repository.
\<close>

definition example_alias :: git_reference where
  "example_alias =
     \<lparr>ref_name = ''refs/heads/alias'', ref_type = GIT_REF_SYMBOLIC, ref_target = None\<rparr>"

definition example_lost :: git_reference where
  "example_lost =
     \<lparr>ref_name = ''refs/heads/lost'', ref_type = GIT_REF_OID, ref_target = Some 3\<rparr>"

definition dangling_repo :: collaborators where
  "dangling_repo = example_repo\<lparr>reference_list := Some [example_alias, example_tag]\<rparr>"

definition lost_repo :: collaborators where
  "lost_repo =
     example_repo
       \<lparr>odb_commits :=
          (\<lambda>i. if i = 1 then Some example_commit
               else if i = 3 then Some (example_commit\<lparr>commit_tree_id := 4\<rparr>)
               else None),
        reference_list := Some [example_lost, example_tag]\<rparr>"

subsection \<open>Facts about the escaper\<close>

lemma xmlencode_loop_eq:
  "xmlencode_loop s i len =
     concat (map xmlencode_char (take (len - i) (takeWhile (\<lambda>c. c \<noteq> NUL) s)))"
proof (induction s arbitrary: i)
  case Nil
  show ?case by simp
next
  case (Cons c s)
  show ?case
  proof (cases "c \<noteq> NUL \<and> i < len")
    case True
    then have "len - i = Suc (len - Suc i)" by arith
    with True Cons show ?thesis by simp
  next
    case False
    then show ?thesis by auto
  qed
qed

lemma xmlencode_eq_concat:
  "xmlencode s len = concat (map xmlencode_char (escaped_prefix s len))"
  by (simp add: xmlencode_def escaped_prefix_def xmlencode_loop_eq)

lemma xmlunescape_char:
  "xmlunescape (xmlencode_char c @ t) = c # xmlunescape t"
  by (simp add: xmlencode_char_def)

lemma xmlunescape_concat:
  "xmlunescape (concat (map xmlencode_char p)) = p"
  by (induction p) (simp_all add: xmlunescape_char)

text \<open>
  C2. For every buffer \<open>s\<close> and bound \<open>len\<close>, \<^verbatim>\<open>xmlencode\<close> reads exactly the prefix of \<open>s\<close>
  that ends at the first NUL byte or after \<open>len\<close> bytes, whichever comes first; its output
  is that prefix with each of \<open><\<close>, \<open>>\<close>, \<open>&\<close>, \<open>'\<close>, \<open>"\<close> replaced by its named entity and
  every other byte unchanged; and replacing the five named entities in the output by
  their characters gives that prefix back.
\<close>

theorem xmlencode_roundtrip:
  "xmlencode s len = concat (map xmlencode_char (take len (takeWhile (\<lambda>c. c \<noteq> NUL) s)))
   \<and> xmlencode_char c =
       (if c = CHR ''<'' then ''&lt;''
        else if c = CHR ''>'' then ''&gt;''
        else if c = CHR ''&'' then ''&amp;''
        else if c = CHR 0x27 then ''&apos;''
        else if c = CHR 0x22 then ''&quot;''
        else [c])
   \<and> xmlunescape (xmlencode s len) = take len (takeWhile (\<lambda>c. c \<noteq> NUL) s)"
proof -
  have "xmlencode s len = concat (map xmlencode_char (escaped_prefix s len))"
    by (rule xmlencode_eq_concat)
  moreover have "xmlunescape (xmlencode s len) = escaped_prefix s len"
    by (simp add: xmlencode_eq_concat xmlunescape_concat)
  moreover have "xmlencode_char c =
       (if c = CHR ''<'' then ''&lt;''
        else if c = CHR ''>'' then ''&gt;''
        else if c = CHR ''&'' then ''&amp;''
        else if c = CHR 0x27 then ''&apos;''
        else if c = CHR 0x22 then ''&quot;''
        else [c])"
    by (simp add: xmlencode_char_def)
  ultimately show ?thesis
    by (simp add: escaped_prefix_def)
qed

theorem xmlencode_roundtrip_witness:
  "xmlencode [CHR ''a'', CHR ''<'', CHR ''&'', NUL, CHR ''b''] 7 = ''a&lt;&amp;''
   \<and> xmlencode ''a<&b'' 2 = ''a&lt;''
   \<and> xmlunescape (xmlencode ''a<&b'' 2) = ''a<''"
  using xmlencode_roundtrip [of "''a<&b''" 2 "CHR ''a''"]
  by (simp add: xmlencode_def xmlencode_char_def NUL_def)

subsection \<open>The line count of a blob page\<close>

lemma writeblobhtml_loop_eq:
  "writeblobhtml_loop s n =
     (concat (map nfmt [Suc n ..< Suc n + length (filter (\<lambda>c. c = CHR 0x0A) s)]),
      n + length (filter (\<lambda>c. c = CHR 0x0A) s))"
proof (induction s arbitrary: n)
  case Nil
  show ?case by simp
next
  case (Cons c s)
  show ?case
  proof (cases "c = CHR 0x0A")
    case True
    then show ?thesis
      by (simp add: Cons upt_conv_Cons del: upt_Suc)
  next
    case False
    then show ?thesis by (simp add: Cons)
  qed
qed

lemma writeblobhtml_lines_eq:
  "writeblobhtml_lines s =
     (concat (map nfmt [1 ..< Suc (blob_line_count s)]), blob_line_count s)"
proof (cases "s = []")
  case True
  then show ?thesis by (simp add: writeblobhtml_lines_def blob_line_count_def)
next
  case False
  then show ?thesis
    by (simp add: writeblobhtml_lines_def blob_line_count_def writeblobhtml_loop_eq
        Let_def upt_conv_Cons del: upt_Suc)
qed

lemma int_of_size_t_small: "n < 2 ^ 31 \<Longrightarrow> int_of_size_t n = int n"
proof -
  assume "n < 2 ^ 31"
  then have "int n < int (2 ^ 31)" by (simp only: of_nat_less_iff)
  then have "int n < 2 ^ 31" by simp
  then have "signed_take_bit 31 (int n) = int n"
    by (simp add: signed_take_bit_int_eq_self)
  then show ?thesis
    by (simp add: int_of_size_t_def signed_of_nat)
qed

lemma int_of_size_t_2_31: "int_of_size_t 2147483648 = - 2147483648"
  by (simp add: int_of_size_t_def signed_of_nat signed_take_bit_eq_take_bit_shift)

lemma blob_line_count_replicate:
  "0 < k \<Longrightarrow> blob_line_count (replicate k (CHR 0x0A)) = k"
  by (simp add: blob_line_count_def min_def)

lemma writeblobhtml_snd:
  "snd (writeblobhtml b) = int_of_size_t (blob_line_count (rawcontent b))"
  by (simp add: writeblobhtml_def Let_def writeblobhtml_lines_eq)

lemma nfmt_overflow:
  \<open>nfmt 2147483648 = ''<a href="#l-2147483648" id="l-2147483648">-2147483648</a>\<newline>''\<close>
  by (simp add: nfmt_def int_of_size_t_2_31 fmt_d_def digit_char_def char_of_eq_iff)

lemma nfmt_small:
  \<open>n < 2 ^ 31 \<Longrightarrow>
   nfmt n = ''<a href="#l'' @ fmt_zu n @ ''" id="l'' @ fmt_zu n @ ''">'' @ fmt_zu n
            @ ''</a>\<newline>''\<close>
  by (simp add: nfmt_def int_of_size_t_small fmt_d_def del: fmt_zu.simps)

text \<open>
  C6 fails on the code. \<^verbatim>\<open>writeblobhtml\<close> counts the lines in the \<^verbatim>\<open>size_t\<close> variable \<open>n\<close>,
  but prints it with \<^verbatim>\<open>%d\<close> and returns it as an \<^verbatim>\<open>int\<close>. For the blob of \<open>2\<^sup>3\<^sup>1\<close> newline
  bytes the line count is 2147483648; the anchor printed for the last line is
  \<^verbatim>\<open>l-2147483648\<close> and the value returned is -2147483648.
\<close>

theorem writeblobhtml_returns_negative:
  \<open>length (rawcontent big_blob) = 2147483648
   \<and> blob_line_count (rawcontent big_blob) = 2147483648
   \<and> snd (writeblobhtml big_blob) = - 2147483648
   \<and> nfmt 2147483648 = ''<a href="#l-2147483648" id="l-2147483648">-2147483648</a>\<newline>''\<close>
  by (simp add: writeblobhtml_snd big_blob_def blob_line_count_replicate int_of_size_t_2_31
      nfmt_overflow)

text \<open>
  Below \<open>2\<^sup>3\<^sup>1\<close> lines the code does what the claim says. For every blob,
  \<^verbatim>\<open>writeblobhtml\<close> prints the anchors \<^verbatim>\<open>nfmt 1\<close> to \<^verbatim>\<open>nfmt n\<close>, where \<open>n\<close> is zero for empty
  content and otherwise 1 plus the number of newline bytes among the first \<open>len - 1\<close>
  bytes; whenever \<open>n < 2\<^sup>3\<^sup>1\<close> the value returned is \<open>n\<close>, and the anchor of a line
  \<open>k < 2\<^sup>3\<^sup>1\<close> carries the number \<open>k\<close> in decimal.
\<close>

lemma writeblobhtml_line_count:
  \<open>writeblobhtml b =
     (''<table id="blob"><tr><td class="num"><pre>\<newline>''
      @ concat (map nfmt [1 ..< Suc (blob_line_count (rawcontent b))])
      @ ''</pre></td><td><pre>\<newline>''
      @ xmlencode (rawcontent b) (length (rawcontent b))
      @ ''</pre></td></tr></table>\<newline>'',
      int_of_size_t (blob_line_count (rawcontent b)))
   \<and> (blob_line_count (rawcontent b) < 2 ^ 31
        \<longrightarrow> snd (writeblobhtml b) = int (blob_line_count (rawcontent b)))
   \<and> (k < 2 ^ 31
        \<longrightarrow> nfmt k = ''<a href="#l'' @ fmt_zu k @ ''" id="l'' @ fmt_zu k @ ''">'' @ fmt_zu k
                       @ ''</a>\<newline>'')\<close>
proof -
  have \<open>k < 2 ^ 31
        \<longrightarrow> nfmt k = ''<a href="#l'' @ fmt_zu k @ ''" id="l'' @ fmt_zu k @ ''">'' @ fmt_zu k
                       @ ''</a>\<newline>''\<close>
    using nfmt_small [of k] by blast
  moreover have \<open>writeblobhtml b =
     (''<table id="blob"><tr><td class="num"><pre>\<newline>''
      @ concat (map nfmt [1 ..< Suc (blob_line_count (rawcontent b))])
      @ ''</pre></td><td><pre>\<newline>''
      @ xmlencode (rawcontent b) (length (rawcontent b))
      @ ''</pre></td></tr></table>\<newline>'',
      int_of_size_t (blob_line_count (rawcontent b)))\<close>
    by (simp add: writeblobhtml_def Let_def writeblobhtml_lines_eq)
  moreover have \<open>blob_line_count (rawcontent b) < 2 ^ 31
        \<longrightarrow> snd (writeblobhtml b) = int (blob_line_count (rawcontent b))\<close>
    by (simp add: writeblobhtml_snd int_of_size_t_small)
  ultimately show ?thesis by blast
qed

lemma writeblobhtml_line_count_example:
  \<open>blob_line_count ''a\<newline>b'' = 2
   \<and> snd (writeblobhtml \<lparr>rawcontent = ''a\<newline>b'', is_binary = False\<rparr>) = 2
   \<and> blob_line_count ''a\<newline>b\<newline>'' = 2
   \<and> blob_line_count [] = 0\<close>
  using writeblobhtml_line_count
    [of "\<lparr>rawcontent = ''a\<newline>b'', is_binary = False\<rparr>", THEN conjunct2, THEN conjunct1]
  by (simp add: blob_line_count_def)

subsection \<open>The summary of a log row\<close>

lemma xmlencode_strlen: "xmlencode s (strlen s) = concat (map xmlencode_char (cstr s))"
  by (simp add: xmlencode_eq_concat escaped_prefix_def strlen_def cstr_def)

text \<open>
  C7, as the claim states it, fails: the summary is cut to \<^verbatim>\<open>summarylen - 1\<close> bytes, not to
  \<^verbatim>\<open>summarylen\<close>. With a budget of 3 the summary \<^verbatim>\<open>abcd\<close> is printed as \<^verbatim>\<open>ab\<close> and the
  ellipsis, not as \<^verbatim>\<open>abc\<close> and the ellipsis.
\<close>

theorem writelog_summary_counterexample:
  "strlen ''abcd'' > unat (3 :: config_summarylen)
   \<and> writelog_summary 3 ''abcd'' = ''ab'' @ ellipsis
   \<and> writelog_summary 3 ''abcd'' \<noteq> xmlencode ''abcd'' (unat (3 :: config_summarylen)) @ ellipsis"
  by (simp add: writelog_summary_def strlen_def cstr_def NUL_def xmlencode_def xmlencode_char_def
      ellipsis_def)

text \<open>
  C7, amended. For a budget \<^verbatim>\<open>summarylen\<close> of at least 1: when the summary is longer than
  \<^verbatim>\<open>summarylen\<close> bytes, the text printed is the escaped first \<^verbatim>\<open>summarylen - 1\<close> bytes of the
  summary followed by the ellipsis; otherwise it is the whole escaped summary and no
  ellipsis.
\<close>

theorem writelog_summary_clip:
  "summarylen \<noteq> 0 \<Longrightarrow>
   writelog_summary summarylen s =
     (if strlen s > unat summarylen
      then concat (map xmlencode_char (take (unat summarylen - 1) (cstr s))) @ ellipsis
      else concat (map xmlencode_char (cstr s)))"
proof -
  assume nz: "summarylen \<noteq> 0"
  then have "unat (summarylen - 1) = unat summarylen - 1"
    by (simp add: unat_minus_one)
  moreover have "xmlencode s (unat summarylen - 1)
      = concat (map xmlencode_char (take (unat summarylen - 1) (cstr s)))"
    by (simp add: xmlencode_eq_concat escaped_prefix_def cstr_def)
  ultimately show ?thesis
    by (simp add: writelog_summary_def Let_def xmlencode_strlen)
qed

theorem writelog_summary_clip_witness:
  "(3 :: 32 word) \<noteq> 0 \<and> writelog_summary 3 ''abcd'' = ''ab'' @ ellipsis
   \<and> writelog_summary 3 ''abc'' = ''abc''"
  using writelog_summary_clip [of 3 "''abcd''"] writelog_summary_clip [of 3 "''abc''"]
  by (simp add: strlen_def cstr_def NUL_def xmlencode_char_def)

subsection \<open>The feed and the relative-path cursor\<close>

text \<open>
  C10. The bytes that \<^verbatim>\<open>writeatom\<close> writes, and the value it returns, are the same for any
  two values of the cursor \<^verbatim>\<open>relpath\<close> at the time of the call.
\<close>

theorem writeatom_ignores_relpath:
  "writeatom e (g\<lparr>relpath := r1\<rparr>) = writeatom e (g\<lparr>relpath := r2\<rparr>)"
  by (simp add: writeatom_def)

subsection \<open>The walk of the feed\<close>

lemma writeatom_loop_eq:
  "map Some (writeatom_loop e i m ids) =
     takeWhile (\<lambda>x. x \<noteq> None) (map (commitinfo_getbyoid e) (take (m - i) ids))"
proof (induction ids arbitrary: i)
  case Nil
  show ?case by simp
next
  case (Cons x xs)
  show ?case
  proof (cases "i < m")
    case True
    then have "m - i = Suc (m - Suc i)" by arith
    with True Cons show ?thesis by (simp split: option.splits)
  next
    case False
    then show ?thesis by simp
  qed
qed

lemma writeatom_loop_length: "length (writeatom_loop e i m ids) \<le> m - i"
proof (induction ids arbitrary: i)
  case Nil
  show ?case by simp
next
  case (Cons x xs)
  show ?case
  proof (cases "i < m")
    case True
    have "length (writeatom_loop e (Suc i) m xs) \<le> m - Suc i" by (rule Cons)
    with True show ?thesis by (auto split: option.splits)
  next
    case False
    then show ?thesis by simp
  qed
qed

subsection \<open>Commit snapshots and commit pages\<close>

lemma hex_digit_not_NUL: "hex_digit d \<noteq> NUL"
proof -
  have "d mod 16 < length ''0123456789abcdef''" by simp
  then have "hex_digit d \<in> set ''0123456789abcdef''"
    unfolding hex_digit_def by (rule nth_mem)
  then show ?thesis by (auto simp: NUL_def)
qed

lemma git_oid_fmt_length: "length (git_oid_fmt i) = 40"
  by (simp add: git_oid_fmt_def)

lemma git_oid_fmt_cstr: "cstr (git_oid_fmt i) = git_oid_fmt i"
  unfolding cstr_def takeWhile_eq_all_conv git_oid_fmt_def
  by (simp add: hex_digit_not_NUL)

lemma git_oid_tostr_Some: "git_oid_tostr (Suc GIT_OID_HEXSZ) (Some i) = git_oid_fmt i"
  by (simp add: git_oid_tostr_def GIT_OID_HEXSZ_def git_oid_fmt_length)

lemma git_oid_tostr_None: "git_oid_tostr n None = []"
  by (simp add: git_oid_tostr_def)

lemma commitinfo_getbyoid_oid:
  "commitinfo_getbyoid e i = Some ci \<Longrightarrow> oid ci = git_oid_fmt i"
  by (auto simp: commitinfo_getbyoid_def git_commit_lookup_def git_oid_tostr_Some
      split: option.splits)

lemma printshowfile_path_oid:
  "oid ci = git_oid_fmt i \<Longrightarrow> printshowfile_path ci = ''commit/'' @ git_oid_fmt i @ ''.html''"
  by (simp add: printshowfile_path_def snprintf_def git_oid_fmt_cstr PATH_MAX_def
      git_oid_fmt_length)

lemma example_getbyoid: "commitinfo_getbyoid example_repo 1 = Some example_ci"
  by (simp add: commitinfo_getbyoid_def git_commit_lookup_def example_repo_def
      example_commit_def git_commit_tree_def commitinfo_parent_def git_commit_parent_def
      git_commit_parent_id_def git_oid_tostr_Some git_oid_tostr_None example_ci_def
      example_stats_def)

text \<open>
  C4. The path of a commit's page is \<^verbatim>\<open>commit/\<close>, the 40 hexadecimal digits of the commit's
  identifier and \<^verbatim>\<open>.html\<close>: two snapshots with the same identifier string have the same
  path. If a file exists at that path, \<^verbatim>\<open>printshowfile\<close> returns at once: no stream is
  opened, and the file system and every global are as they were.
\<close>

theorem printshowfile_existing:
  "(commitinfo_getbyoid e i = Some ci
      \<longrightarrow> printshowfile_path ci = ''commit/'' @ git_oid_fmt i @ ''.html'')
   \<and> (oid ci = oid ci' \<longrightarrow> printshowfile_path ci = printshowfile_path ci')
   \<and> (files (fs g) (printshowfile_path ci) \<noteq> None \<longrightarrow> printshowfile e g ci = Inr g)"
proof -
  have "commitinfo_getbyoid e i = Some ci
      \<longrightarrow> printshowfile_path ci = ''commit/'' @ git_oid_fmt i @ ''.html''"
    using commitinfo_getbyoid_oid printshowfile_path_oid by blast
  moreover have "oid ci = oid ci' \<longrightarrow> printshowfile_path ci = printshowfile_path ci'"
    by (simp add: printshowfile_path_def)
  moreover have "files (fs g) (printshowfile_path ci) \<noteq> None \<longrightarrow> printshowfile e g ci = Inr g"
    by (simp add: printshowfile_def access_def Let_def)
  ultimately show ?thesis by blast
qed

theorem printshowfile_existing_witness:
  "commitinfo_getbyoid example_repo 1 = Some example_ci
   \<and> printshowfile_path example_ci = ''commit/'' @ git_oid_fmt 1 @ ''.html''
   \<and> files (fs example_written) (printshowfile_path example_ci) = Some ''old''
   \<and> printshowfile example_repo example_written example_ci = Inr example_written"
proof -
  note t = printshowfile_existing [of example_repo 1 example_ci example_ci example_written]
  have a: "commitinfo_getbyoid example_repo 1 = Some example_ci"
    by (rule example_getbyoid)
  have f: "files (fs example_written) (printshowfile_path example_ci) = Some ''old''"
    by (simp add: example_written_def fclose_def)
  from t a have p: "printshowfile_path example_ci = ''commit/'' @ git_oid_fmt 1 @ ''.html''"
    by blast
  from t f have q: "printshowfile example_repo example_written example_ci = Inr example_written"
    by simp
  from a f p q show ?thesis by blast
qed

text \<open>
  C8. For a root commit (one whose list of parents is empty), the snapshot that
  \<^verbatim>\<open>commitinfo_getbyoid\<close> builds has the empty string as parent identifier and no parent or
  parent tree; its diff is the one computed from the \<^verbatim>\<open>NULL\<close> (empty) old tree to the
  commit's tree; and \<^verbatim>\<open>printcommit\<close> prints the commit line, the author block and the
  message with nothing for the parent between them.
\<close>

theorem root_commit_no_parent:
  \<open>odb_commits e i = Some c \<Longrightarrow> commit_parent_ids c = [] \<Longrightarrow>
   commitinfo_getbyoid e i = Some ci \<Longrightarrow>
     parentoid ci = [] \<and> parent ci = None \<and> parent_tree ci = None
     \<and> diff_tree_to_tree e None (Some (commit_tree ci)) [GIT_DIFF_DISABLE_PATHSPEC_MATCH]
         = Some (diff ci)
     \<and> printcommit_parent rel ci = []
     \<and> printcommit e g ci =
         ''<b>commit</b> <a href="'' @ cstr (relpath g) @ ''commit/'' @ cstr (oid ci)
         @ ''.html">'' @ cstr (oid ci) @ ''</a>\<newline>''
         @ printcommit_author e ci
         @ printcommit_msg ci\<close>
proof -
  assume c: "odb_commits e i = Some c" and root: "commit_parent_ids c = []"
    and ci: "commitinfo_getbyoid e i = Some ci"
  from c root have par: "commitinfo_parent e (c\<lparr>commit_id := i\<rparr>) = Some (None, None)"
    by (simp add: commitinfo_parent_def git_commit_parent_def git_commit_parent_id_def)
  from c root have pid: "git_commit_parent_id (c\<lparr>commit_id := i\<rparr>) 0 = None"
    by (simp add: git_commit_parent_id_def)
  from ci c par pid have fields: "parentoid ci = [] \<and> parent ci = None \<and> parent_tree ci = None
     \<and> diff_tree_to_tree e None (Some (commit_tree ci)) [GIT_DIFF_DISABLE_PATHSPEC_MATCH]
         = Some (diff ci)"
    by (auto simp: commitinfo_getbyoid_def git_commit_lookup_def git_oid_tostr_def
        split: option.splits)
  then have "printcommit_parent rel' ci = []" for rel'
    by (simp add: printcommit_parent_def first_byte_set_def)
  with fields show ?thesis
    by (simp add: printcommit_def)
qed

theorem root_commit_no_parent_witness:
  \<open>odb_commits example_repo 1 = Some example_commit
   \<and> commit_parent_ids example_commit = []
   \<and> commitinfo_getbyoid example_repo 1 = Some example_ci
   \<and> parentoid example_ci = []
   \<and> printcommit_parent ''../'' example_ci = []\<close>
  using root_commit_no_parent [of example_repo 1 example_commit example_ci "''../''" example_globals]
  by (simp add: example_getbyoid) (simp add: example_repo_def example_commit_def)

subsection \<open>The entries of the feed\<close>

lemma printcommitatom_entry:
  \<open>prefix (''<entry>\<newline><id>'' @ cstr (oid ci) @ ''</id>\<newline>'') (printcommitatom e ci)
   \<and> suffix ''</entry>\<newline>'' (printcommitatom e ci)\<close>
proof
  show \<open>prefix (''<entry>\<newline><id>'' @ cstr (oid ci) @ ''</id>\<newline>'') (printcommitatom e ci)\<close>
    unfolding printcommitatom_def by (simp add: prefix_def)
  have \<open>\<exists>ys. printcommitatom e ci = ys @ ''</entry>\<newline>''\<close>
    unfolding printcommitatom_def by (simp flip: append_assoc del: append_assoc)
  then show \<open>suffix ''</entry>\<newline>'' (printcommitatom e ci)\<close>
    by (simp add: suffix_def)
qed

lemma writeatom_loop_oids:
  "map oid (writeatom_loop e i m ids) =
     map git_oid_fmt (take (length (writeatom_loop e i m ids)) ids)"
proof (induction ids arbitrary: i)
  case Nil
  show ?case by simp
next
  case (Cons x xs)
  show ?case
  proof (cases "i < m")
    case False
    then show ?thesis by simp
  next
    case True
    show ?thesis
    proof (cases "commitinfo_getbyoid e x")
      case None
      with True show ?thesis by simp
    next
      case (Some ci)
      then have "oid ci = git_oid_fmt x" by (rule commitinfo_getbyoid_oid)
      with True Some Cons [of "Suc i"] show ?thesis by simp
    qed
  qed
qed

lemma example_entries: "writeatom_entries example_repo = [example_ci]"
proof -
  have "revwalk_next example_repo writeatom_walk = [1]"
    by (simp add: example_repo_def)
  then show ?thesis
    by (simp add: writeatom_entries_def example_getbyoid)
qed

lemma git_oid_fmt_1: "git_oid_fmt 1 = ''0000000000000000000000000000000000000001''"
  by (simp add: git_oid_fmt_def hex_digit_def upt_rec drop_bit_eq_div)

lemma example_atom:
  \<open>printcommitatom example_repo example_ci =
     ''<entry>\<newline><id>0000000000000000000000000000000000000001</id>\<newline>''
     @ ''<updated>1970-01-01 00:00</updated>\<newline>''
     @ ''<title type="text">first</title>\<newline>''
     @ ''<content type="text">commit 0000000000000000000000000000000000000001\<newline>''
     @ ''Author: A U Thor &lt;author@example.org&gt;\<newline>Date:   1970-01-01 00:00\<newline>''
     @ ''\<newline>first\<newline>\<newline></content>\<newline>''
     @ ''<author><name>A U Thor</name>\<newline><email>author@example.org</email>\<newline></author>\<newline>''
     @ ''</entry>\<newline>''\<close>
  by (simp add: printcommitatom_def example_ci_def git_oid_fmt_1 example_author_def
      example_commit_def first_byte_set_def printtimez_def printtime_def printtimeformat_def
      example_repo_def cstr_def strlen_def NUL_def xmlencode_def xmlencode_char_def)

text \<open>
  C9. \<^verbatim>\<open>writeatom\<close> configures its walker with \<^verbatim>\<open>git_revwalk_push_head\<close> (no revision is
  passed in), sorting by commit time and first parents only. It visits the first 100
  identifiers of that walk at most and stops at the first whose snapshot cannot be built.
  Between the head and the foot of the feed it prints one entry for each commit visited,
  in the order of the walk: every entry opens with \<^verbatim>\<open><entry>\<close> and the \<^verbatim>\<open><id>\<close> element of its
  commit and closes with \<^verbatim>\<open></entry>\<close>, and the identifiers printed are the 40 hexadecimal
  digits of the identifiers the walk returned.
\<close>

theorem writeatom_feed:
  \<open>writeatom_walk =
     \<lparr>walk_pushed = [Push_head], walk_sorting = GIT_SORT_TIME, walk_first_parent = True\<rparr>
   \<and> map Some (writeatom_entries e) =
       takeWhile (\<lambda>x. x \<noteq> None)
         (map (commitinfo_getbyoid e) (take 100 (revwalk_next e writeatom_walk)))
   \<and> length (writeatom_entries e) \<le> 100
   \<and> writeatom e g =
       (0,
        ''<?xml version="1.0" encoding="UTF-8"?>\<newline>''
        @ ''<feed xmlns="http://www.w3.org/2005/Atom">\<newline><title>''
        @ xmlencode (stripped_name g) (strlen (stripped_name g))
        @ '', branch HEAD</title>\<newline><subtitle>''
        @ xmlencode (description g) (strlen (description g))
        @ ''</subtitle>\<newline>''
        @ concat (map (printcommitatom e) (writeatom_entries e))
        @ ''</feed>'')
   \<and> prefix (''<entry>\<newline><id>'' @ cstr (oid ci) @ ''</id>\<newline>'') (printcommitatom e ci)
   \<and> suffix ''</entry>\<newline>'' (printcommitatom e ci)
   \<and> map oid (writeatom_entries e) =
       map git_oid_fmt
         (take (length (writeatom_entries e)) (revwalk_next e writeatom_walk))
   \<and> cstr (git_oid_fmt i) = git_oid_fmt i\<close>
proof -
  have "writeatom_walk =
     \<lparr>walk_pushed = [Push_head], walk_sorting = GIT_SORT_TIME, walk_first_parent = True\<rparr>"
    by (simp add: writeatom_walk_def git_revwalk_new_def git_revwalk_push_head_def
        git_revwalk_sorting_def git_revwalk_simplify_first_parent_def)
  moreover have "map Some (writeatom_entries e) =
       takeWhile (\<lambda>x. x \<noteq> None)
         (map (commitinfo_getbyoid e) (take 100 (revwalk_next e writeatom_walk)))"
    unfolding writeatom_entries_def by (simp add: writeatom_loop_eq)
  moreover have "length (writeatom_entries e) \<le> 100"
    unfolding writeatom_entries_def using writeatom_loop_length [of e 0 100] by simp
  moreover have \<open>writeatom e g =
       (0,
        ''<?xml version="1.0" encoding="UTF-8"?>\<newline>''
        @ ''<feed xmlns="http://www.w3.org/2005/Atom">\<newline><title>''
        @ xmlencode (stripped_name g) (strlen (stripped_name g))
        @ '', branch HEAD</title>\<newline><subtitle>''
        @ xmlencode (description g) (strlen (description g))
        @ ''</subtitle>\<newline>''
        @ concat (map (printcommitatom e) (writeatom_entries e))
        @ ''</feed>'')\<close>
    by (simp add: writeatom_def)
  moreover note printcommitatom_entry [of ci e]
  moreover have "map oid (writeatom_entries e) =
       map git_oid_fmt
         (take (length (writeatom_entries e)) (revwalk_next e writeatom_walk))"
    unfolding writeatom_entries_def by (rule writeatom_loop_oids)
  moreover note git_oid_fmt_cstr [of i]
  ultimately show ?thesis by blast
qed

text \<open>The feed of the small repository: its one commit, one entry.\<close>

theorem writeatom_feed_witness:
  \<open>writeatom_entries example_repo = [example_ci]
   \<and> writeatom example_repo example_globals =
       (0,
        ''<?xml version="1.0" encoding="UTF-8"?>\<newline>''
        @ ''<feed xmlns="http://www.w3.org/2005/Atom">\<newline><title>repo, branch HEAD</title>\<newline>''
        @ ''<subtitle></subtitle>\<newline>''
        @ ''<entry>\<newline><id>0000000000000000000000000000000000000001</id>\<newline>''
        @ ''<updated>1970-01-01 00:00</updated>\<newline>''
        @ ''<title type="text">first</title>\<newline>''
        @ ''<content type="text">commit 0000000000000000000000000000000000000001\<newline>''
        @ ''Author: A U Thor &lt;author@example.org&gt;\<newline>Date:   1970-01-01 00:00\<newline>''
        @ ''\<newline>first\<newline>\<newline></content>\<newline>''
        @ ''<author><name>A U Thor</name>\<newline><email>author@example.org</email>\<newline></author>\<newline>''
        @ ''</entry>\<newline>''
        @ ''</feed>'')\<close>
proof -
  have h: \<open>xmlencode (stripped_name example_globals) (strlen (stripped_name example_globals))
          = ''repo''\<close>
    \<open>xmlencode (description example_globals) (strlen (description example_globals)) = []\<close>
    by (simp_all add: example_globals_def strlen_def cstr_def NUL_def xmlencode_def
        xmlencode_char_def)
  from writeatom_feed [of example_repo example_globals example_ci 1]
  have \<open>writeatom example_repo example_globals =
       (0,
        ''<?xml version="1.0" encoding="UTF-8"?>\<newline>''
        @ ''<feed xmlns="http://www.w3.org/2005/Atom">\<newline><title>''
        @ xmlencode (stripped_name example_globals) (strlen (stripped_name example_globals))
        @ '', branch HEAD</title>\<newline><subtitle>''
        @ xmlencode (description example_globals) (strlen (description example_globals))
        @ ''</subtitle>\<newline>''
        @ concat (map (printcommitatom example_repo) (writeatom_entries example_repo))
        @ ''</feed>'')\<close>
    by blast
  then show ?thesis
    by (simp add: h example_entries example_atom)
qed

subsection \<open>The comparison of references and the sort\<close>

lemma strcmp_loop_flip: "strcmp_loop b a = - strcmp_loop a b"
  by (induction a b rule: strcmp_loop.induct) auto

lemma of_char_pos: "c \<noteq> NUL \<Longrightarrow> 0 < (of_char c :: nat)"
proof (rule ccontr)
  assume c: "c \<noteq> NUL" and "\<not> 0 < (of_char c :: nat)"
  then have "(of_char c :: nat) = of_char (CHR 0x00)" by simp
  then have "c = CHR 0x00" by (rule of_char_eqI)
  with c show False by (simp add: NUL_def)
qed

lemma strcmp_loop_le_iff:
  "NUL \<notin> set a \<Longrightarrow> NUL \<notin> set b \<Longrightarrow>
   strcmp_loop a b \<le> 0 \<longleftrightarrow>
     a = b \<or> (a, b) \<in> lexord {(x, y). (of_char x :: nat) < of_char y}"
proof (induction a b rule: strcmp_loop.induct)
  case 1
  show ?case by simp
next
  case (2 b bs)
  show ?case by simp
next
  case (3 a as)
  then have "a \<noteq> NUL" by auto
  then have "0 < (of_char a :: nat)" by (rule of_char_pos)
  then show ?case by simp
next
  case (4 a as b bs)
  show ?case
  proof (cases "a = b")
    case True
    with 4 show ?thesis by simp
  next
    case False
    then have ne: "(of_char a :: nat) \<noteq> of_char b" by simp
    have "int (of_char a) - int (of_char b) \<le> 0 \<longleftrightarrow> (of_char a :: nat) < of_char b"
      using ne by linarith
    with False show ?thesis by simp
  qed
qed

lemma cstr_no_NUL: "NUL \<notin> set (cstr s)"
  unfolding cstr_def by (auto dest: set_takeWhileD)

lemma strcmp_le_iff: "strcmp s1 s2 \<le> 0 \<longleftrightarrow> lex_le s1 s2"
  unfolding strcmp_def lex_bytes_def lex_le_def
  by (rule strcmp_loop_le_iff) (rule cstr_no_NUL)+

lemma lex_bytes_trans: "(a, b) \<in> lex_bytes \<Longrightarrow> (b, c) \<in> lex_bytes \<Longrightarrow> (a, c) \<in> lex_bytes"
  unfolding lex_bytes_def
  by (rule lexord_trans) (auto simp: trans_def)

lemma strcmp_trans: "strcmp a b \<le> 0 \<Longrightarrow> strcmp b c \<le> 0 \<Longrightarrow> strcmp a c \<le> 0"
  unfolding strcmp_le_iff lex_le_def using lex_bytes_trans by auto

lemma strcmp_total: "strcmp a b \<le> 0 \<or> strcmp b a \<le> 0"
  unfolding strcmp_def using strcmp_loop_flip [of "cstr a" "cstr b"] by linarith


lemma is_branch_01: "git_reference_is_branch r = 0 \<or> git_reference_is_branch r = 1"
  by (simp add: git_reference_is_branch_def)

lemma refs_cmp_total: "refs_cmp a b \<le> 0 \<or> refs_cmp b a \<le> 0"
  using is_branch_01 [of a] is_branch_01 [of b] strcmp_total
  by (auto simp: refs_cmp_def Let_def)

lemma refs_cmp_trans: "refs_cmp a b \<le> 0 \<Longrightarrow> refs_cmp b c \<le> 0 \<Longrightarrow> refs_cmp a c \<le> 0"
  using is_branch_01 [of a] is_branch_01 [of b] is_branch_01 [of c]
    strcmp_trans [of "git_reference_shorthand a" "git_reference_shorthand b"
      "git_reference_shorthand c"]
  by (auto simp: refs_cmp_def Let_def split: if_splits)


lemma qsort_insert_set: "set (qsort_insert cmp x xs) = insert x (set xs)"
  by (induction xs) auto

lemma qsort_insert_count:
  "count_list (qsort_insert cmp x xs) y = count_list (x # xs) y"
  by (induction xs) auto

lemma qsort_count: "count_list (qsort xs cmp) y = count_list xs y"
  unfolding qsort_def
  by (induction xs) (simp_all add: qsort_insert_count)

lemma qsort_set: "set (qsort xs cmp) = set xs"
  unfolding qsort_def
  by (induction xs) (simp_all add: qsort_insert_set)

lemma qsort_insert_sorted:
  assumes total: "\<And>a b. cmp a b \<le> 0 \<or> cmp b a \<le> 0"
    and trans: "\<And>a b c. cmp a b \<le> 0 \<Longrightarrow> cmp b c \<le> 0 \<Longrightarrow> cmp a c \<le> 0"
  shows "sorted_wrt (\<lambda>a b. cmp a b \<le> 0) xs
    \<Longrightarrow> sorted_wrt (\<lambda>a b. cmp a b \<le> 0) (qsort_insert cmp x xs)"
proof (induction xs)
  case Nil
  show ?case by simp
next
  case (Cons y ys)
  show ?case
  proof (cases "cmp x y \<le> 0")
    case True
    with Cons.prems trans show ?thesis by auto
  next
    case False
    with total have "cmp y x \<le> 0" by blast
    with False Cons show ?thesis by (auto simp: qsort_insert_set)
  qed
qed

lemma qsort_sorted:
  assumes total: "\<And>a b. cmp a b \<le> 0 \<or> cmp b a \<le> 0"
    and trans: "\<And>a b c. cmp a b \<le> 0 \<Longrightarrow> cmp b c \<le> 0 \<Longrightarrow> cmp a c \<le> 0"
  shows "sorted_wrt (\<lambda>a b. cmp a b \<le> 0) (qsort xs cmp)"
  unfolding qsort_def
proof (induction xs)
  case Nil
  show ?case by simp
next
  case (Cons x xs)
  then show ?case
    using qsort_insert_sorted [of cmp, OF total trans] by simp
qed

lemma qsort_refs_sorted: "sorted_wrt (\<lambda>a b. refs_cmp a b \<le> 0) (qsort refs refs_cmp)"
  by (rule qsort_sorted) (rule refs_cmp_total, rule refs_cmp_trans)

subsection \<open>The loops of the references page\<close>

lemma writerefs_loop_resolved:
  "\<forall>ref\<in>set refs. writerefs_selects j ref \<longrightarrow> writerefs_resolves e ref \<Longrightarrow>
   writerefs_loop e j refs count g =
     ((if count = 0 \<and> filter (writerefs_selects j) refs \<noteq> [] then writerefs_head j else [])
        @ writerefs_rows e (filter (writerefs_selects j) refs),
      count + length (filter (writerefs_selects j) refs),
      (if filter (writerefs_selects j) refs = [] then g else g\<lparr>relpath := ''../''\<rparr>),
      False)"
proof (induction refs arbitrary: count g)
  case Nil
  show ?case by (simp add: writerefs_rows_def)
next
  case (Cons ref refs)
  then have rest: "\<forall>ref\<in>set refs. writerefs_selects j ref \<longrightarrow> writerefs_resolves e ref"
    by simp
  show ?case
  proof (cases "writerefs_selects j ref")
    case False
    then show ?thesis
      using Cons.IH [OF rest, of count g] by (simp add: writerefs_selects_def)
  next
    case True
    with Cons.prems obtain r ci where got: "writerefs_resolve e ref = Got (r, ci)"
      by (auto simp: writerefs_resolves_def split: step.splits)
    from True got show ?thesis
      using Cons.IH [OF rest, of "Suc count" "g\<lparr>relpath := ''../''\<rparr>"]
      by (auto simp: writerefs_selects_def writerefs_rows_def)
  qed
qed

lemma writerefs_loop_relpath:
  "writerefs_loop e j refs count g = (out, count', g', err) \<Longrightarrow>
   g' = g \<or> g' = g\<lparr>relpath := ''../''\<rparr>"
proof (induction refs arbitrary: count g out)
  case Nil
  then show ?case by simp
next
  case (Cons ref refs)
  show ?case
  proof (cases "writerefs_selects j ref")
    case False
    with Cons show ?thesis by (simp add: writerefs_selects_def)
  next
    case True
    show ?thesis
    proof (cases "writerefs_resolve e ref")
      case (Got x)
      obtain r ci where x: "x = (r, ci)" by (cases x)
      obtain out2 where
        "writerefs_loop e j refs (Suc count) (g\<lparr>relpath := ''../''\<rparr>) = (out2, count', g', err)"
        using Cons.prems True Got x
        by (auto simp: writerefs_selects_def split: prod.splits)
      from Cons.IH [OF this] show ?thesis by auto
    next
      case Continue
      with Cons.prems True have "writerefs_loop e j refs count g = (out, count', g', err)"
        by (auto simp: writerefs_selects_def)
      from Cons.IH [OF this] show ?thesis .
    next
      case Break
      with Cons.prems True show ?thesis by (auto simp: writerefs_selects_def)
    next
      case Goto_err
      with Cons.prems True show ?thesis by (auto simp: writerefs_selects_def)
    qed
  qed
qed

lemma upt_0_2: "[0 ..< 2] = [0, 1]"
  by (simp add: upt_rec)

lemma writerefs_returns_0: "reference_list e = Some refs \<Longrightarrow> fst (writerefs e g) = 0"
  by (simp add: writerefs_def split: prod.splits)


subsection \<open>The order of the references page\<close>

lemma tag_not_branch: "git_reference_is_tag r \<noteq> 0 \<Longrightarrow> git_reference_is_branch r = 0"
  by (auto simp: git_reference_is_tag_def git_reference_is_branch_def prefix_def
      split: if_splits)

lemma refs_cmp_same_class:
  "git_reference_is_branch a = git_reference_is_branch b \<Longrightarrow>
   refs_cmp a b \<le> 0 \<longleftrightarrow> by_shorthand a b"
  by (simp add: refs_cmp_def by_shorthand_def strcmp_le_iff)

lemma refs_cmp_classes:
  "git_reference_is_branch a = 0 \<Longrightarrow> git_reference_is_branch b \<noteq> 0 \<Longrightarrow> refs_cmp a b < 0"
  using is_branch_01 [of b] by (auto simp: refs_cmp_def)

lemma writerefs_branches_sorted: "sorted_wrt by_shorthand (writerefs_branches refs0)"
proof -
  have "sorted_wrt (\<lambda>a b. refs_cmp a b \<le> 0) (writerefs_branches refs0)"
    unfolding writerefs_branches_def by (rule sorted_wrt_filter) (rule qsort_refs_sorted)
  then show ?thesis
  proof (rule sorted_wrt_mono_rel [rotated])
    fix a b
    assume "a \<in> set (writerefs_branches refs0)" "b \<in> set (writerefs_branches refs0)"
      and le: "refs_cmp a b \<le> 0"
    then have "git_reference_is_branch a = git_reference_is_branch b"
      using is_branch_01 [of a] is_branch_01 [of b] by (auto simp: writerefs_branches_def)
    with le show "by_shorthand a b" by (simp add: refs_cmp_same_class)
  qed
qed

lemma writerefs_tags_sorted: "sorted_wrt by_shorthand (writerefs_tags refs0)"
proof -
  have "sorted_wrt (\<lambda>a b. refs_cmp a b \<le> 0) (writerefs_tags refs0)"
    unfolding writerefs_tags_def by (rule sorted_wrt_filter) (rule qsort_refs_sorted)
  then show ?thesis
  proof (rule sorted_wrt_mono_rel [rotated])
    fix a b
    assume "a \<in> set (writerefs_tags refs0)" "b \<in> set (writerefs_tags refs0)"
      and le: "refs_cmp a b \<le> 0"
    then have "git_reference_is_branch a = git_reference_is_branch b"
      by (auto simp: writerefs_tags_def tag_not_branch)
    with le show "by_shorthand a b" by (simp add: refs_cmp_same_class)
  qed
qed

lemma writerefs_resolved:
  assumes refs: "reference_list e = Some refs0"
    and res: "\<forall>ref\<in>set refs0.
      git_reference_is_branch ref \<noteq> 0 \<or> git_reference_is_tag ref \<noteq> 0 \<longrightarrow> writerefs_resolves e ref"
  shows "writerefs e g =
     (0,
      writerefs_table e 0 (writerefs_branches refs0) @ writerefs_table e 1 (writerefs_tags refs0),
      (if writerefs_branches refs0 = [] \<and> writerefs_tags refs0 = [] then g
       else g\<lparr>relpath := ''../''\<rparr>))"
proof -
  let ?s = "qsort refs0 refs_cmp"
  have "writerefs_selects 0 = (\<lambda>r. git_reference_is_branch r \<noteq> 0)"
    by (rule ext) (simp add: writerefs_selects_def)
  then have sel0: "filter (writerefs_selects 0) ?s = writerefs_branches refs0"
    by (simp add: writerefs_branches_def)
  have "writerefs_selects (Suc 0) = (\<lambda>r. git_reference_is_tag r \<noteq> 0)"
    by (rule ext) (simp add: writerefs_selects_def)
  then have sel1: "filter (writerefs_selects (Suc 0)) ?s = writerefs_tags refs0"
    by (simp add: writerefs_tags_def)
  have h: "\<forall>ref\<in>set ?s. writerefs_selects j ref \<longrightarrow> writerefs_resolves e ref" for j
    using res by (auto simp: qsort_set writerefs_selects_def)
  have l: "writerefs_loop e j ?s 0 g' =
     ((if filter (writerefs_selects j) ?s \<noteq> [] then writerefs_head j else [])
        @ writerefs_rows e (filter (writerefs_selects j) ?s),
      length (filter (writerefs_selects j) ?s),
      (if filter (writerefs_selects j) ?s = [] then g' else g'\<lparr>relpath := ''../''\<rparr>),
      False)" for j g'
    using writerefs_loop_resolved [OF h, of j 0 g'] by simp
  show ?thesis
    by (simp add: writerefs_def refs upt_0_2 l sel0 sel1 writerefs_table_def writerefs_rows_def)
qed

lemma example_sorted: "qsort [example_master, example_tag] refs_cmp = [example_tag, example_master]"
  by (simp add: qsort_def refs_cmp_def git_reference_is_branch_def example_master_def
      example_tag_def)

lemma example_resolve_master:
  "writerefs_resolve example_repo example_master = Got (example_master, example_ci)"
  using example_getbyoid
  by (simp add: writerefs_resolve_def writerefs_target_def git_reference_type_def
      git_reference_target_def example_master_def example_repo_def)

lemma example_resolve_tag:
  "writerefs_resolve example_repo example_tag = Got (example_tag, example_ci)"
  using example_getbyoid
  by (simp add: writerefs_resolve_def writerefs_target_def git_reference_type_def
      git_reference_target_def example_tag_def example_repo_def)

lemma example_branches: "writerefs_branches [example_master, example_tag] = [example_master]"
  by (simp add: writerefs_branches_def example_sorted)
    (simp add: git_reference_is_branch_def example_master_def example_tag_def)

lemma example_tags: "writerefs_tags [example_master, example_tag] = [example_tag]"
  by (simp add: writerefs_tags_def example_sorted)
    (simp add: git_reference_is_tag_def example_master_def example_tag_def)

lemma example_reference_list:
  "reference_list example_repo = Some [example_master, example_tag]"
  by (simp add: example_repo_def)

lemma example_all_resolve:
  "\<forall>ref\<in>set [example_master, example_tag].
      git_reference_is_branch ref \<noteq> 0 \<or> git_reference_is_tag ref \<noteq> 0
      \<longrightarrow> writerefs_resolves example_repo ref"
  by (simp add: writerefs_resolves_def example_resolve_master example_resolve_tag)

text \<open>
  C5, as the claim states it, fails: under \<^verbatim>\<open>refs_cmp\<close> a branch compares greater than a
  tag (\<^verbatim>\<open>t1 - t2\<close> is 1 for a branch against a reference that is not one), so \<^verbatim>\<open>qsort\<close>
  puts the tag \<^verbatim>\<open>v1\<close> before the branch \<^verbatim>\<open>master\<close>.
\<close>

theorem refs_cmp_counterexample:
  "git_reference_is_branch example_master = 1
   \<and> git_reference_is_tag example_tag = 1
   \<and> refs_cmp example_master example_tag = 1
   \<and> qsort [example_master, example_tag] refs_cmp = [example_tag, example_master]"
  by (simp add: example_sorted)
    (simp add: refs_cmp_def git_reference_is_branch_def git_reference_is_tag_def
      example_master_def example_tag_def)

text \<open>
  C5, amended. The comparator ranks every reference that is not a branch (the tags among
  them) before every branch, and two references of the same class in the lexicographic
  order of their shorthand names; the sorted array is a rearrangement of the references,
  in that order. When every branch and every tag resolves, the page is the branches table
  followed by the tags table (one pass over the sorted array for each), each table made
  of the rows of its references in the lexicographic order of their shorthand names.
\<close>

theorem writerefs_order:
  "reference_list e = Some refs0 \<Longrightarrow>
   \<forall>ref\<in>set refs0.
      git_reference_is_branch ref \<noteq> 0 \<or> git_reference_is_tag ref \<noteq> 0 \<longrightarrow> writerefs_resolves e ref \<Longrightarrow>
   fst (snd (writerefs e g)) =
     writerefs_table e 0 (writerefs_branches refs0) @ writerefs_table e 1 (writerefs_tags refs0)
   \<and> sorted_wrt by_shorthand (writerefs_branches refs0)
   \<and> sorted_wrt by_shorthand (writerefs_tags refs0)
   \<and> sorted_wrt (\<lambda>a b. refs_cmp a b \<le> 0) (qsort refs0 refs_cmp)
   \<and> (\<forall>r. count_list (qsort refs0 refs_cmp) r = count_list refs0 r)
   \<and> (\<forall>a b. git_reference_is_branch a = 0 \<and> git_reference_is_branch b \<noteq> 0
          \<longrightarrow> refs_cmp a b < 0)
   \<and> (\<forall>a b. git_reference_is_branch a = git_reference_is_branch b
          \<longrightarrow> (refs_cmp a b \<le> 0 \<longleftrightarrow> by_shorthand a b))"
proof -
  assume refs: "reference_list e = Some refs0"
    and res: "\<forall>ref\<in>set refs0.
      git_reference_is_branch ref \<noteq> 0 \<or> git_reference_is_tag ref \<noteq> 0 \<longrightarrow> writerefs_resolves e ref"
  have "fst (snd (writerefs e g)) =
     writerefs_table e 0 (writerefs_branches refs0) @ writerefs_table e 1 (writerefs_tags refs0)"
    by (simp add: writerefs_resolved [OF refs res])
  moreover note writerefs_branches_sorted [of refs0] writerefs_tags_sorted [of refs0]
    qsort_refs_sorted [of refs0]
  moreover have "\<forall>r. count_list (qsort refs0 refs_cmp) r = count_list refs0 r"
    by (simp add: qsort_count)
  moreover have "\<forall>a b. git_reference_is_branch a = 0 \<and> git_reference_is_branch b \<noteq> 0
          \<longrightarrow> refs_cmp a b < 0"
    by (simp add: refs_cmp_classes)
  moreover have "\<forall>a b. git_reference_is_branch a = git_reference_is_branch b
          \<longrightarrow> (refs_cmp a b \<le> 0 \<longleftrightarrow> by_shorthand a b)"
    by (simp add: refs_cmp_same_class)
  ultimately show ?thesis by blast
qed

theorem writerefs_order_witness:
  "reference_list example_repo = Some [example_master, example_tag]
   \<and> writerefs_resolves example_repo example_master
   \<and> writerefs_resolves example_repo example_tag
   \<and> writerefs_branches [example_master, example_tag] = [example_master]
   \<and> writerefs_tags [example_master, example_tag] = [example_tag]
   \<and> fst (snd (writerefs example_repo example_globals)) =
       writerefs_table example_repo 0 [example_master]
       @ writerefs_table example_repo 1 [example_tag]"
  using writerefs_order [OF example_reference_list example_all_resolve, of example_globals]
  by (simp add: example_reference_list example_branches example_tags writerefs_resolves_def
      example_resolve_master example_resolve_tag)

subsection \<open>The relative-path cursor after each writer\<close>

text \<open>
  C1 fails in \<^verbatim>\<open>writerefs\<close>: each row sets \<^verbatim>\<open>relpath\<close> to the empty string and then to
  \<^verbatim>\<open>../\<close>, and nothing resets it before the function returns. For the small repository,
  called with the empty cursor, \<^verbatim>\<open>writerefs\<close> returns with the cursor \<^verbatim>\<open>../\<close>.
\<close>

theorem writerefs_leaves_relpath:
  "relpath example_globals = []
   \<and> relpath (snd (snd (writerefs example_repo example_globals))) = ''../''"
  by (simp add: writerefs_resolved [OF example_reference_list example_all_resolve]
      example_branches example_globals_def)

text \<open>
  The other two writers do what the claim says: \<^verbatim>\<open>writelog\<close> returns with the empty cursor,
  and so does \<^verbatim>\<open>writeblob\<close> unless \<^verbatim>\<open>mkdirp\<close> fails, when it returns -1 with the cursor
  untouched. \<^verbatim>\<open>writerefs\<close> returns the globals it was given or those with the cursor
  \<^verbatim>\<open>../\<close>.
\<close>

lemma writelog_relpath:
  "writelog e summarylen g i = Inr (rv, out, g') \<Longrightarrow> relpath g' = []"
  by (auto simp: writelog_def split: sum.splits prod.splits)

lemma writeblob_relpath:
  "writeblob g obj fpath filename filesize = Inr (lc, g') \<Longrightarrow>
   (if fst (mkdirp (fs g) (xdirname fpath)) \<noteq> 0 then lc = - 1 \<and> relpath g' = relpath g
    else relpath g' = [])"
proof -
  assume a: "writeblob g obj fpath filename filesize = Inr (lc, g')"
  obtain r f1 where m: "mkdirp (fs g) (xdirname fpath) = (r, f1)"
    by (cases "mkdirp (fs g) (xdirname fpath)") auto
  show ?thesis
  proof (cases "r = 0")
    case False
    with a m show ?thesis by (auto simp: writeblob_def)
  next
    case True
    show ?thesis
    proof (cases "efopen f1 (cstr fpath)")
      case (Inl x)
      with a m True show ?thesis by (simp add: writeblob_def Let_def)
    next
      case (Inr u)
      obtain body n where
        b: "(if is_binary obj then (''<p>Binary file</p>\<newline>'', 0) else writeblobhtml obj)
              = (body, n)"
        by (cases "if is_binary obj then (''<p>Binary file</p>\<newline>'', 0 :: int)
                   else writeblobhtml obj") auto
      from a m True Inr b show ?thesis
        by (auto simp: writeblob_def Let_def)
    qed
  qed
qed

lemma writerefs_relpath:
  "writerefs e g = (rv, out, g') \<Longrightarrow> g' = g \<or> g' = g\<lparr>relpath := ''../''\<rparr>"
proof -
  assume a: "writerefs e g = (rv, out, g')"
  show ?thesis
  proof (cases "reference_list e")
    case None
    with a show ?thesis by (simp add: writerefs_def)
  next
    case (Some refs0)
    let ?s = "qsort refs0 refs_cmp"
    obtain o0 c0 g0 e0 where l0: "writerefs_loop e 0 ?s 0 g = (o0, c0, g0, e0)"
      by (cases "writerefs_loop e 0 ?s 0 g") auto
    obtain o1 c1 g1 e1 where l1: "writerefs_loop e (Suc 0) ?s 0 g0 = (o1, c1, g1, e1)"
      by (cases "writerefs_loop e (Suc 0) ?s 0 g0") auto
    from writerefs_loop_relpath [OF l0] have r0: "g0 = g \<or> g0 = g\<lparr>relpath := ''../''\<rparr>" .
    from writerefs_loop_relpath [OF l1] have r1: "g1 = g0 \<or> g1 = g0\<lparr>relpath := ''../''\<rparr>" .
    from a Some l0 l1 have "g' = g0 \<or> g' = g1"
      by (auto simp: writerefs_def upt_0_2 split: if_splits)
    with r0 r1 show ?thesis by auto
  qed
qed

subsection \<open>Failures in the references page\<close>

lemma lost_getbyoid_1: "commitinfo_getbyoid lost_repo 1 = Some example_ci"
  by (simp add: commitinfo_getbyoid_def git_commit_lookup_def lost_repo_def example_repo_def
      example_commit_def git_commit_tree_def commitinfo_parent_def git_commit_parent_def
      git_commit_parent_id_def git_oid_tostr_Some git_oid_tostr_None example_ci_def
      example_stats_def)

lemma lost_getbyoid_3: "commitinfo_getbyoid lost_repo 3 = None"
  by (simp add: commitinfo_getbyoid_def git_commit_lookup_def lost_repo_def example_repo_def
      example_commit_def git_commit_tree_def)

text \<open>
  C3 fails on the code. When \<^verbatim>\<open>git_reference_resolve\<close> fails for the branch \<^verbatim>\<open>alias\<close>,
  \<^verbatim>\<open>writerefs\<close> stops and prints nothing, but it returns 0, the value it returns for the
  intact repository. When no snapshot can be built for the branch \<^verbatim>\<open>lost\<close>, the
  \<^verbatim>\<open>break\<close> leaves only the loop over the branches: the tags table is still printed, and
  the value returned is 0 again.
\<close>

theorem writerefs_failures_return_0:
  "reference_resolve dangling_repo example_alias = None
   \<and> writerefs dangling_repo example_globals = (0, [], example_globals)
   \<and> commitinfo_getbyoid lost_repo 3 = None
   \<and> writerefs lost_repo example_globals =
       (0, writerefs_table lost_repo 1 [example_tag], example_globals\<lparr>relpath := ''../''\<rparr>)
   \<and> fst (writerefs example_repo example_globals) = 0"
proof -
  have s1: "qsort [example_alias, example_tag] refs_cmp = [example_tag, example_alias]"
    by (simp add: qsort_def refs_cmp_def git_reference_is_branch_def example_alias_def
        example_tag_def)
  have s2: "qsort [example_lost, example_tag] refs_cmp = [example_tag, example_lost]"
    by (simp add: qsort_def refs_cmp_def git_reference_is_branch_def example_lost_def
        example_tag_def)
  have cls: "git_reference_is_branch example_tag = 0" "git_reference_is_tag example_tag = 1"
    "git_reference_is_branch example_alias = 1" "git_reference_is_tag example_alias = 0"
    "git_reference_is_branch example_lost = 1" "git_reference_is_tag example_lost = 0"
    by (simp_all add: git_reference_is_branch_def git_reference_is_tag_def example_tag_def
        example_alias_def example_lost_def)
  have a: "reference_resolve dangling_repo example_alias = None"
    by (simp add: dangling_repo_def example_repo_def)
  have fa: "ref_type example_alias = GIT_REF_SYMBOLIC"
    by (simp add: example_alias_def)
  have ra: "writerefs_resolve dangling_repo example_alias = Goto_err"
    by (simp add: writerefs_resolve_def git_reference_type_def a fa)
  have la: "reference_list dangling_repo = Some [example_alias, example_tag]"
    by (simp add: dangling_repo_def)
  have b: "writerefs dangling_repo example_globals = (0, [], example_globals)"
    by (simp add: writerefs_def la upt_0_2 s1 cls ra)
  have fl: "ref_type example_lost = GIT_REF_OID" "ref_target example_lost = Some 3"
    "reference_peel lost_repo example_lost = Some \<lparr>git_object_id = Some 3\<rparr>"
    by (simp_all add: example_lost_def lost_repo_def example_repo_def)
  have ft: "ref_type example_tag = GIT_REF_OID" "ref_target example_tag = Some 1"
    "reference_peel lost_repo example_tag = Some \<lparr>git_object_id = Some 1\<rparr>"
    by (simp_all add: example_tag_def lost_repo_def example_repo_def)
  have rl: "writerefs_resolve lost_repo example_lost = Break"
    by (simp add: writerefs_resolve_def writerefs_target_def git_reference_type_def
        git_reference_target_def fl lost_getbyoid_3)
  have rt: "writerefs_resolve lost_repo example_tag = Got (example_tag, example_ci)"
    by (simp add: writerefs_resolve_def writerefs_target_def git_reference_type_def
        git_reference_target_def ft lost_getbyoid_1)
  have ll: "reference_list lost_repo = Some [example_lost, example_tag]"
    by (simp add: lost_repo_def)
  have c: "writerefs lost_repo example_globals =
       (0, writerefs_table lost_repo 1 [example_tag], example_globals\<lparr>relpath := ''../''\<rparr>)"
    by (simp add: writerefs_def ll s2 upt_0_2 cls rl rt writerefs_table_def writerefs_rows_def)
  have d: "fst (writerefs example_repo example_globals) = 0"
    by (simp add: writerefs_returns_0 [OF example_reference_list])
  from a b lost_getbyoid_3 c d show ?thesis by blast
qed

end
